theory Spec2Isabelle
  imports Main "HOL-Library.Char_ord" "HOL-Library.List_Lexorder" "HOL-Library.AList"
begin

section \<open>Strings and slash-separated paths (Go packages strings and path)\<close>

type_synonym bytes = string

text \<open>strings.HasPrefix, strings.TrimPrefix and strings.TrimSuffix.\<close>

fun HasPrefix :: "string \<Rightarrow> string \<Rightarrow> bool" where
  "HasPrefix s [] = True"
| "HasPrefix [] (p # ps) = False"
| "HasPrefix (c # cs) (p # ps) = (c = p \<and> HasPrefix cs ps)"

definition TrimPrefix :: "string \<Rightarrow> string \<Rightarrow> string" where
  "TrimPrefix s p = (if HasPrefix s p then drop (length p) s else s)"

definition HasSuffix :: "string \<Rightarrow> string \<Rightarrow> bool" where
  "HasSuffix s p = HasPrefix (rev s) (rev p)"

definition TrimSuffix :: "string \<Rightarrow> string \<Rightarrow> string" where
  "TrimSuffix s p = (if HasSuffix s p then take (length s - length p) s else s)"

text \<open>The elements of a path between its slashes: \<open>a//b\<close> has the elements
  \<open>a\<close>, the empty element and \<open>b\<close>. The result is never the empty list,
  so the first branch of the case is never taken.\<close>

fun splitSlash :: "string \<Rightarrow> string list" where
  "splitSlash [] = [[]]"
| "splitSlash (c # cs) =
     (if c = CHR ''/'' then [] # splitSlash cs
      else (case splitSlash cs of
              [] \<Rightarrow> [[c]]
            | e # es \<Rightarrow> (c # e) # es))"

fun joinSlash :: "string list \<Rightarrow> string" where
  "joinSlash [] = []"
| "joinSlash [x] = x"
| "joinSlash (x # y # ys) = x @ CHR ''/'' # joinSlash (y # ys)"

definition IsAbs :: "string \<Rightarrow> bool" where
  "IsAbs p = (case p of [] \<Rightarrow> False | c # _ \<Rightarrow> c = CHR ''/'')"

text \<open>
  path.Clean, element by element. The output is kept as a stack (last element first):
  an empty element and \<open>.\<close> are dropped; \<open>..\<close> removes the element before it,
  is dropped at the root, and is kept when a relative path has nothing left to remove
  (the stack then holds \<open>..\<close> elements only); any other element is pushed.
\<close>

definition cleanStep :: "bool \<Rightarrow> string list \<Rightarrow> string \<Rightarrow> string list" where
  "cleanStep rooted out e =
     (if e = [] \<or> e = ''.'' then out
      else if e = ''..'' then
        (case out of
           [] \<Rightarrow> (if rooted then [] else [''..''])
         | x # xs \<Rightarrow> (if x = ''..'' then ''..'' # out else xs))
      else e # out)"

definition cleanElems :: "string \<Rightarrow> string list" where
  "cleanElems p = rev (foldl (cleanStep (IsAbs p)) [] (splitSlash p))"

definition Clean :: "string \<Rightarrow> string" where
  "Clean p =
     (if p = [] then ''.''
      else if IsAbs p then CHR ''/'' # joinSlash (cleanElems p)
      else if cleanElems p = [] then ''.''
      else joinSlash (cleanElems p))"

text \<open>path.Base is the last element of a path, trailing slashes removed; path.Ext
  is the suffix of the last element that starts at its final dot.\<close>

definition Base :: "string \<Rightarrow> string" where
  "Base p =
     (if p = [] then ''.''
      else let e = last (splitSlash (rev (dropWhile (\<lambda>c. c = CHR ''/'') (rev p))))
           in if e = [] then ''/'' else e)"

definition Ext :: "string \<Rightarrow> string" where
  "Ext p =
     (let e = last (splitSlash p)
      in if CHR ''.'' \<in> set e then CHR ''.'' # rev (takeWhile (\<lambda>c. c \<noteq> CHR ''.'') (rev e))
         else [])"

text \<open>path.Join: empty elements are ignored, the rest is joined by slashes and
  cleaned; joining nothing gives the empty string.\<close>

definition Join :: "string list \<Rightarrow> string" where
  "Join elem =
     (let ne = filter (\<lambda>e. e \<noteq> []) elem
      in if ne = [] then [] else Clean (joinSlash ne))"

section \<open>Configuration\<close>

text \<open>A viper configuration read through GetString: a key that is not set reads as
  the empty string.\<close>

type_synonym viper = "string \<Rightarrow> string"

text \<open>The constants of package configurer, which is not among the sources, and the
  directories of the two source files (\<open>thisDir\<close> of package resources and of package
  importer), which Go computes from runtime.Caller.\<close>

record configurer =
  AddAllFlag :: string
  SpdxPathFlag :: string
  SpdxFlag :: string
  CustomPathFlag :: string
  CustomFlag :: string
  DefaultResource :: string
  resourcesDir :: string
  importerDir :: string

section \<open>Package resources\<close>

datatype resourceReader = embeddedFS | osReader

text \<open>embeddedFS is the bundle compiled into the program; osReader (ReaderReader in
  the first version of the file) reads the file system through os.ReadDir and
  os.ReadFile.\<close>

definition getResourcesPath :: "viper \<Rightarrow> string \<Rightarrow> string \<Rightarrow> string" where
  "getResourcesPath cfg pathFlag embeddedFlag =
     (let pathValue = cfg pathFlag
      in if pathValue = [] then Join [embeddedFlag, cfg embeddedFlag] else pathValue)"

definition getResourcesWritePath :: "configurer \<Rightarrow> viper \<Rightarrow> string \<Rightarrow> string \<Rightarrow> string" where
  "getResourcesWritePath K cfg pathFlag embeddedFlag =
     (let pathValue = cfg pathFlag
      in if pathValue = [] then Join [resourcesDir K, embeddedFlag, cfg embeddedFlag]
         else if IsAbs pathValue then pathValue
         else Join [resourcesDir K, ''..'', pathValue])"

definition getFileReader :: "viper \<Rightarrow> string \<Rightarrow> string \<Rightarrow> resourceReader \<times> string" where
  "getFileReader cfg pathFlag embeddedFlag =
     (let pathValue = cfg pathFlag
      in if pathValue = [] then (embeddedFS, Join [embeddedFlag, cfg embeddedFlag])
         else (osReader, pathValue))"

definition getSPDXReader :: "configurer \<Rightarrow> viper \<Rightarrow> resourceReader \<times> string" where
  "getSPDXReader K cfg = getFileReader cfg (SpdxPathFlag K) (SpdxFlag K)"

definition getCustomReader :: "configurer \<Rightarrow> viper \<Rightarrow> resourceReader \<times> string" where
  "getCustomReader K cfg = getFileReader cfg (CustomPathFlag K) (CustomFlag K)"

section \<open>Errors\<close>

datatype errno = ENOENT | ENOTDIR | EISDIR | EINVAL

text \<open>One constructor for each place where an error value is made. PathError is the
  error of a file operation (operation, path, cause); Foreign is an error that comes out
  of a function of this repository that is not among the sources (validate,
  getPreChecksBytes and the packages licenses, normalizer and configurer). The other
  constructors are the fmt.Errorf and Logger.Errorf calls, with the values they print and
  the error they wrap.\<close>

datatype error =
    PathError string string errno
  | Foreign string
  | ReadLicenseListError string error
  | UnmarshalLicenseListError string error
  | ReadExceptionsError string error
  | UnmarshalExceptionsError string error
  | VersionMismatch string string
  | TemplateDirEmpty string
  | TemplateNotValid string
  | NotValidated nat
  | NoDestination
  | BothDestinations
  | CannotCreateDir string error
  | CannotReadDir string error
  | DirNotEmpty string
  | WriteTemplateError string error
  | WriteTestdataError string error
  | PreCheckBytesError string error
  | WritePreCheckError string error
  | UnmarshalLicenseInfoError string error
  | CannotGenerateRe error

section \<open>The file system\<close>

text \<open>
  A file system is a finite table from file keys to nodes. The key of a path is what
  the path names once it is cleaned: whether it starts at the root, and its elements.
  The root and the working directory (the keys with no element) always exist; every
  other directory exists when the table says so.
\<close>

datatype node = File bytes | Dir

type_synonym fkey = "bool \<times> string list"

type_synonym filesys = "(fkey \<times> node) list"

record DirEntry =
  Name :: string
  IsDir :: bool

definition fkey :: "string \<Rightarrow> fkey" where
  "fkey p = (IsAbs p, cleanElems p)"

definition stat :: "filesys \<Rightarrow> fkey \<Rightarrow> node option" where
  "stat fs k = (if snd k = [] then Some Dir else map_of fs k)"

definition parent :: "fkey \<Rightarrow> fkey" where
  "parent k = (fst k, butlast (snd k))"

definition isChild :: "fkey \<Rightarrow> fkey \<Rightarrow> bool" where
  "isChild d k = (snd k \<noteq> [] \<and> last (snd k) \<noteq> ''..'' \<and> parent k = d)"

definition children :: "filesys \<Rightarrow> fkey \<Rightarrow> DirEntry list" where
  "children fs d =
     map (\<lambda>(k, n). \<lparr>Name = last (snd k), IsDir = (n = Dir)\<rparr>)
       (filter (\<lambda>(k, n). isChild d k) fs)"

definition os_ReadFile :: "filesys \<Rightarrow> string \<Rightarrow> error + bytes" where
  "os_ReadFile fs name =
     (if name = [] then Inl (PathError ''open'' name ENOENT)
      else case stat fs (fkey name) of
             None \<Rightarrow> Inl (PathError ''open'' name ENOENT)
           | Some Dir \<Rightarrow> Inl (PathError ''read'' name EISDIR)
           | Some (File b) \<Rightarrow> Inr b)"

text \<open>os.ReadDir returns the entries of a directory sorted by file name.\<close>

definition os_ReadDir :: "filesys \<Rightarrow> string \<Rightarrow> error + DirEntry list" where
  "os_ReadDir fs name =
     (if name = [] then Inl (PathError ''open'' name ENOENT)
      else case stat fs (fkey name) of
             None \<Rightarrow> Inl (PathError ''open'' name ENOENT)
           | Some (File b) \<Rightarrow> Inl (PathError ''readdir'' name ENOTDIR)
           | Some Dir \<Rightarrow> Inr (sort_key Name (children fs (fkey name))))"

text \<open>os.MkdirAll makes the directory and every missing directory above it, and
  fails when one of them is a file; nothing is removed.\<close>

definition ancestors :: "fkey \<Rightarrow> fkey list" where
  "ancestors k = map (\<lambda>n. (fst k, take n (snd k))) [1..<Suc (length (snd k))]"

fun mkdirs :: "string \<Rightarrow> filesys \<Rightarrow> fkey list \<Rightarrow> error + filesys" where
  "mkdirs name fs [] = Inr fs"
| "mkdirs name fs (k # ks) =
     (case stat fs k of
        Some (File b) \<Rightarrow> Inl (PathError ''mkdir'' name ENOTDIR)
      | Some Dir \<Rightarrow> mkdirs name fs ks
      | None \<Rightarrow> mkdirs name (AList.update k Dir fs) ks)"

definition os_MkdirAll :: "filesys \<Rightarrow> string \<Rightarrow> error + filesys" where
  "os_MkdirAll fs name =
     (if name = [] then Inl (PathError ''mkdir'' name ENOENT)
      else mkdirs name fs (ancestors (fkey name)))"

text \<open>os.WriteFile creates the file or replaces its content; the directory that
  holds it must exist.\<close>

definition os_WriteFile :: "filesys \<Rightarrow> string \<Rightarrow> bytes \<Rightarrow> error + filesys" where
  "os_WriteFile fs name b =
     (if name = [] then Inl (PathError ''open'' name ENOENT)
      else let k = fkey name
           in case stat fs (parent k) of
                None \<Rightarrow> Inl (PathError ''open'' name ENOENT)
              | Some (File x) \<Rightarrow> Inl (PathError ''open'' name ENOTDIR)
              | Some Dir \<Rightarrow>
                  (case stat fs k of
                     Some Dir \<Rightarrow> Inl (PathError ''open'' name EISDIR)
                   | _ \<Rightarrow> Inr (AList.update k (File b) fs)))"

text \<open>The embedded bundle is read-only and accepts only the names of fs.ValidPath:
  no leading slash and no empty, \<open>.\<close> or \<open>..\<close> element, or the name \<open>.\<close>
  alone.\<close>

definition ValidPath :: "string \<Rightarrow> bool" where
  "ValidPath name =
     (name = ''.'' \<or> list_all (\<lambda>e. e \<noteq> [] \<and> e \<noteq> ''.'' \<and> e \<noteq> ''..'') (splitSlash name))"

definition embed_ReadFile :: "filesys \<Rightarrow> string \<Rightarrow> error + bytes" where
  "embed_ReadFile fs name =
     (if ValidPath name then os_ReadFile fs name else Inl (PathError ''open'' name EINVAL))"

definition embed_ReadDir :: "filesys \<Rightarrow> string \<Rightarrow> error + DirEntry list" where
  "embed_ReadDir fs name =
     (if ValidPath name then os_ReadDir fs name else Inl (PathError ''open'' name EINVAL))"

section \<open>The world of the program\<close>

text \<open>
  What the program reads and changes: the file system, the embedded bundle, and the
  lines the Logger printed. The field vcalls is not in the program: it lists the calls
  of validate in the order they were made (identifier, template bytes, text bytes,
  template file), so that the number of calls can be stated.
\<close>

datatype logline =
    Info_retrying string
  | Error_logged error

record world =
  fsys :: filesys
  embedded :: filesys
  logged :: "logline list"
  vcalls :: "(string \<times> bytes \<times> bytes \<times> string) list"

definition Logger_Infof :: "logline \<Rightarrow> world \<Rightarrow> world" where
  "Logger_Infof l w = w\<lparr>logged := logged w @ [l]\<rparr>"

text \<open>Logger.Errorf prints the error it makes and returns it.\<close>

definition Logger_Errorf :: "error \<Rightarrow> world \<Rightarrow> error \<times> world" where
  "Logger_Errorf e w = (e, w\<lparr>logged := logged w @ [Error_logged e]\<rparr>)"

definition reader_ReadFile :: "resourceReader \<Rightarrow> world \<Rightarrow> string \<Rightarrow> error + bytes" where
  "reader_ReadFile rr w name =
     (case rr of embeddedFS \<Rightarrow> embed_ReadFile (embedded w) name
               | osReader \<Rightarrow> os_ReadFile (fsys w) name)"

definition reader_ReadDir :: "resourceReader \<Rightarrow> world \<Rightarrow> string \<Rightarrow> error + DirEntry list" where
  "reader_ReadDir rr w name =
     (case rr of embeddedFS \<Rightarrow> embed_ReadDir (embedded w) name
               | osReader \<Rightarrow> os_ReadDir (fsys w) name)"

section \<open>Package resources: reading and writing\<close>

text \<open>The Resources value of the second version of the file, whose constructor asks
  for both readers once and stores them.\<close>

record Resources =
  config :: viper
  spdxReader :: resourceReader
  spdxPath :: string
  customReader :: resourceReader
  customPath :: string

definition NewResources :: "configurer \<Rightarrow> viper \<Rightarrow> Resources" where
  "NewResources K cfg =
     (let (sr, sp) = getSPDXReader K cfg;
          (cr, cp) = getCustomReader K cfg
      in \<lparr>config = cfg, spdxReader = sr, spdxPath = sp, customReader = cr, customPath = cp\<rparr>)"

definition getSPDXTemplateFilePath :: "string \<Rightarrow> bool \<Rightarrow> string \<Rightarrow> string" where
  "getSPDXTemplateFilePath ident isDeprecated templatePath =
     (let f = ident @ ''.template.txt'';
          f = (if isDeprecated then ''deprecated_'' @ f else f)
      in Join [templatePath, f])"

definition getSPDXPreCheckFilePath :: "string \<Rightarrow> bool \<Rightarrow> string \<Rightarrow> string" where
  "getSPDXPreCheckFilePath ident isDeprecated preCheckPath =
     (let f = ident @ ''.json'';
          f = (if isDeprecated then ''deprecated_'' @ f else f)
      in Join [preCheckPath, f])"

text \<open>ReadSPDXTemplateFile returns the bytes or the error of ReadFile together with
  the file name it read; ReadSPDXPreCheckFile returns only the former. First the
  functions over the configuration (first version of the file), then the methods of
  Resources (second version).\<close>

definition ReadSPDXTemplateFile :: "configurer \<Rightarrow> viper \<Rightarrow> string \<Rightarrow> bool \<Rightarrow> world \<Rightarrow> (error + bytes) \<times> string" where
  "ReadSPDXTemplateFile K cfg ident isDeprecated w =
     (let (rr, sp) = getSPDXReader K cfg;
          templatePath = Join [sp, ''template''];
          f = getSPDXTemplateFilePath ident isDeprecated templatePath
      in (reader_ReadFile rr w f, f))"

definition ReadSPDXPreCheckFile :: "configurer \<Rightarrow> viper \<Rightarrow> string \<Rightarrow> bool \<Rightarrow> world \<Rightarrow> error + bytes" where
  "ReadSPDXPreCheckFile K cfg ident isDeprecated w =
     (let (rr, sp) = getSPDXReader K cfg;
          preCheckPath = Join [sp, ''precheck''];
          f = getSPDXPreCheckFilePath ident isDeprecated preCheckPath
      in reader_ReadFile rr w f)"

definition Resources_ReadSPDXTemplateFile :: "Resources \<Rightarrow> string \<Rightarrow> bool \<Rightarrow> world \<Rightarrow> (error + bytes) \<times> string" where
  "Resources_ReadSPDXTemplateFile r ident isDeprecated w =
     (let templatePath = Join [spdxPath r, ''template''];
          f = getSPDXTemplateFilePath ident isDeprecated templatePath
      in (reader_ReadFile (spdxReader r) w f, f))"

definition Resources_ReadSPDXPreCheckFile :: "Resources \<Rightarrow> string \<Rightarrow> bool \<Rightarrow> world \<Rightarrow> error + bytes" where
  "Resources_ReadSPDXPreCheckFile r ident isDeprecated w =
     (let preCheckPath = Join [spdxPath r, ''precheck''];
          f = getSPDXPreCheckFilePath ident isDeprecated preCheckPath
      in reader_ReadFile (spdxReader r) w f)"

text \<open>ReadCustomLicensePatternIds: the names in license_patterns, or no name and the
  error of ReadDir.\<close>

definition ReadCustomLicensePatternIds :: "Resources \<Rightarrow> world \<Rightarrow> string list \<times> error option" where
  "ReadCustomLicensePatternIds r w =
     (let patternPath = Join [customPath r, ''license_patterns'']
      in case reader_ReadDir (customReader r) w patternPath of
           Inl err \<Rightarrow> ([], Some err)
         | Inr des \<Rightarrow> (map Name des, None))"

definition ReadCustomLicensePatternsDir :: "Resources \<Rightarrow> string \<Rightarrow> world \<Rightarrow> (error + DirEntry list) \<times> string" where
  "ReadCustomLicensePatternsDir r ident w =
     (let idPath = Join [customPath r, ''license_patterns'', ident]
      in (reader_ReadDir (customReader r) w idPath, idPath))"

text \<open>mkdirAll: each directory is made, read back, and must be empty. A function that
  returns a Go error returns here the error, if any, and the world as it left it.\<close>

fun mkdirAll_dirs :: "string \<Rightarrow> string list \<Rightarrow> world \<Rightarrow> error option \<times> world" where
  "mkdirAll_dirs destPath [] w = (None, w)"
| "mkdirAll_dirs destPath (dir # dirs) w =
     (let destSubDir = Join [destPath, dir]
      in case os_MkdirAll (fsys w) destSubDir of
           Inl err \<Rightarrow> (Some (CannotCreateDir destSubDir err), w)
         | Inr fs1 \<Rightarrow>
             (let w1 = w\<lparr>fsys := fs1\<rparr>
              in case os_ReadDir fs1 destSubDir of
                   Inl err \<Rightarrow> (Some (CannotReadDir destSubDir err), w1)
                 | Inr des \<Rightarrow>
                     if length des > 0 then (Some (DirNotEmpty destSubDir), w1)
                     else mkdirAll_dirs destPath dirs w1))"

definition mkdirAll :: "configurer \<Rightarrow> viper \<Rightarrow> string \<Rightarrow> string \<Rightarrow> string list \<Rightarrow> world \<Rightarrow> error option \<times> world" where
  "mkdirAll K cfg pathFlag embeddedFlag dirs w =
     (let destPath = getResourcesWritePath K cfg pathFlag embeddedFlag
      in mkdirAll_dirs destPath dirs w)"

definition MkdirAllSPDX :: "configurer \<Rightarrow> viper \<Rightarrow> world \<Rightarrow> error option \<times> world" where
  "MkdirAllSPDX K cfg w =
     (let dirs = [''template'', ''precheck'', ''json'', ''testdata'', ''testdata/invalid'']
      in mkdirAll K cfg (SpdxPathFlag K) (SpdxFlag K) dirs w)"

definition MkdirAllCustom :: "configurer \<Rightarrow> viper \<Rightarrow> string \<Rightarrow> world \<Rightarrow> error option \<times> world" where
  "MkdirAllCustom K cfg ident w =
     (let dirs = [''license_patterns/'' @ ident]
      in mkdirAll K cfg (CustomPathFlag K) (CustomFlag K) dirs w)"

text \<open>os.WriteFile on the file system of the world.\<close>

definition writeFile :: "string \<Rightarrow> bytes \<Rightarrow> world \<Rightarrow> error option \<times> world" where
  "writeFile f b w =
     (case os_WriteFile (fsys w) f b of
        Inl err \<Rightarrow> (Some err, w)
      | Inr fs1 \<Rightarrow> (None, w\<lparr>fsys := fs1\<rparr>))"

definition WriteSPDXFile :: "configurer \<Rightarrow> viper \<Rightarrow> bytes \<Rightarrow> string list \<Rightarrow> world \<Rightarrow> error option \<times> world" where
  "WriteSPDXFile K cfg b ff w =
     (let f = Join [getResourcesWritePath K cfg (SpdxPathFlag K) (SpdxFlag K), Join ff]
      in writeFile f b w)"

definition WriteCustomFile :: "configurer \<Rightarrow> viper \<Rightarrow> bytes \<Rightarrow> string list \<Rightarrow> world \<Rightarrow> error option \<times> world" where
  "WriteCustomFile K cfg b ff w =
     (let f = Join [getResourcesWritePath K cfg (CustomPathFlag K) (CustomFlag K), Join ff]
      in writeFile f b w)"

section \<open>Package importer\<close>

text \<open>
  What the importer calls in the parts of the repository that are not among the
  sources, taken as given: validate and getPreChecksBytes of package importer, the
  readers of package licenses and its file-name constants, the normalizer, the regex
  generator, GetStaticBlocks and configurer.InitConfig. strings.ToLower is taken as
  given too. The type \<open>'nd\<close> is the normalizer's NormalizationData.
\<close>

record LicenseList =
  LicenseListVersion :: string

record 'nd externals =
  validate :: "string \<Rightarrow> bytes \<Rightarrow> bytes \<Rightarrow> string \<Rightarrow> error + string list"
  getPreChecksBytes :: "string list \<Rightarrow> error + bytes"
  ReadSPDXLicenseListJSON :: "bytes \<Rightarrow> error + LicenseList"
  ReadLicenseInfoJSON :: "bytes \<Rightarrow> error option"
  InitConfig :: "error + viper"
  NewNormalizationData :: "string \<Rightarrow> bool \<Rightarrow> 'nd"
  NormalizeText :: "'nd \<Rightarrow> error option \<times> 'nd"
  NormalizedText :: "'nd \<Rightarrow> string"
  GenerateRegexFromNormalizedText :: "string \<Rightarrow> error option"
  GetStaticBlocks :: "'nd \<Rightarrow> string list"
  LicenseInfoJSON :: string
  PrimaryPattern :: string
  AssociatedPattern :: string
  OptionalPattern :: string
  ToLower :: "string \<Rightarrow> string"

text \<open>A call of validate, entered in vcalls.\<close>

definition call_validate :: "'nd externals \<Rightarrow> string \<Rightarrow> bytes \<Rightarrow> bytes \<Rightarrow> string \<Rightarrow> world \<Rightarrow> (error + string list) \<times> world" where
  "call_validate X ident templateBytes textBytes templateFile w =
     (validate X ident templateBytes textBytes templateFile,
      w\<lparr>vcalls := vcalls w @ [(ident, templateBytes, textBytes, templateFile)]\<rparr>)"

definition writeSPDXFiles :: "configurer \<Rightarrow> 'nd externals \<Rightarrow> viper \<Rightarrow> string \<Rightarrow> bytes \<Rightarrow> string \<Rightarrow> bytes \<Rightarrow> string \<Rightarrow> string list \<Rightarrow> world \<Rightarrow> error option \<times> world" where
  "writeSPDXFiles K X cfg templateName templateBytes textName textBytes precheckName staticBlocks w =
     (case WriteSPDXFile K cfg templateBytes [''template'', templateName] w of
        (Some err, w1) \<Rightarrow>
          (let (e, w2) = Logger_Errorf (WriteTemplateError templateName err) w1 in (Some e, w2))
      | (None, w1) \<Rightarrow>
     (case WriteSPDXFile K cfg textBytes [''testdata'', textName] w1 of
        (Some err, w2) \<Rightarrow>
          (let (e, w3) = Logger_Errorf (WriteTestdataError textName err) w2 in (Some e, w3))
      | (None, w2) \<Rightarrow>
     (case getPreChecksBytes X staticBlocks of
        Inl err \<Rightarrow>
          (let (e, w3) = Logger_Errorf (PreCheckBytesError templateName err) w2 in (Some e, w3))
      | Inr precheckBytes \<Rightarrow>
     (case WriteSPDXFile K cfg precheckBytes [''precheck'', precheckName] w2 of
        (Some err, w3) \<Rightarrow>
          (let (e, w4) = Logger_Errorf (WritePreCheckError templateName err) w3 in (Some e, w4))
      | (None, w3) \<Rightarrow> (None, w3)))))"

text \<open>writeInvalidSPDXFiles stashes the template and the text under testdata/invalid;
  a write that fails is logged and nothing is returned.\<close>

definition writeInvalidSPDXFiles :: "configurer \<Rightarrow> viper \<Rightarrow> string \<Rightarrow> bytes \<Rightarrow> string \<Rightarrow> bytes \<Rightarrow> world \<Rightarrow> world" where
  "writeInvalidSPDXFiles K cfg templateName templateBytes textName textBytes w =
     (let w2 = (case WriteSPDXFile K cfg templateBytes [''testdata'', ''invalid'', templateName] w of
                  (Some err, w1) \<Rightarrow> snd (Logger_Errorf (WriteTemplateError templateName err) w1)
                | (None, w1) \<Rightarrow> w1)
      in case WriteSPDXFile K cfg textBytes [''testdata'', ''invalid'', textName] w2 of
           (Some err, w3) \<Rightarrow> snd (Logger_Errorf (WriteTestdataError textName err) w3)
         | (None, w3) \<Rightarrow> w3)"

text \<open>
  The body of the loop of importSPDX for one entry of the template directory. The
  result is \<open>Inl err\<close> when the body returns \<open>err\<close> out of importSPDX, and
  \<open>Inr n\<close> when the loop goes on with the error count \<open>n\<close>.
  importSPDX_write is the branch that writes the files of a valid template, which the
  source has twice; importSPDX_checked is the test of the error after the retry.
\<close>

definition importSPDX_write :: "configurer \<Rightarrow> 'nd externals \<Rightarrow> viper \<Rightarrow> string \<Rightarrow> bytes \<Rightarrow> string \<Rightarrow> bytes \<Rightarrow> string \<Rightarrow> string list \<Rightarrow> nat \<Rightarrow> world \<Rightarrow> (error + nat) \<times> world" where
  "importSPDX_write K X cfg templateName templateBytes textName textBytes precheckName staticBlocks errorCount w =
     (case writeSPDXFiles K X cfg templateName templateBytes textName textBytes precheckName staticBlocks w of
        (Some err, w1) \<Rightarrow> (Inl err, w1)
      | (None, w1) \<Rightarrow> (Inr errorCount, w1))"

definition importSPDX_checked :: "configurer \<Rightarrow> 'nd externals \<Rightarrow> viper \<Rightarrow> string \<Rightarrow> string \<Rightarrow> bytes \<Rightarrow> string \<Rightarrow> bytes \<Rightarrow> string \<Rightarrow> error + string list \<Rightarrow> nat \<Rightarrow> world \<Rightarrow> (error + nat) \<times> world" where
  "importSPDX_checked K X cfg ident templateName templateBytes textName textBytes precheckName r errorCount w =
     (case r of
        Inl err \<Rightarrow>
          (let w1 = snd (Logger_Errorf (TemplateNotValid ident) w)
           in (Inr (errorCount + 1),
               writeInvalidSPDXFiles K cfg templateName templateBytes textName textBytes w1))
      | Inr staticBlocks \<Rightarrow>
          importSPDX_write K X cfg templateName templateBytes textName textBytes precheckName staticBlocks errorCount w)"

definition importSPDX_entry :: "configurer \<Rightarrow> 'nd externals \<Rightarrow> viper \<Rightarrow> string \<Rightarrow> string \<Rightarrow> DirEntry \<Rightarrow> nat \<Rightarrow> world \<Rightarrow> (error + nat) \<times> world" where
  "importSPDX_entry K X cfg templateSrcDir textSrcDir de errorCount w =
     (let templateName = Name de;
          ident = TrimSuffix templateName ''.template.txt'';
          templateFile = Join [templateSrcDir, templateName];
          precheckName = ident @ ''.json'';
          textName = ident @ ''.txt'';
          textFile = Join [textSrcDir, textName]
      in case os_ReadFile (fsys w) templateFile of
           Inl err \<Rightarrow> (Inl err, w)
         | Inr templateBytes \<Rightarrow>
        (case os_ReadFile (fsys w) textFile of
           Inl err \<Rightarrow> (Inl err, w)
         | Inr textBytes \<Rightarrow>
        (case call_validate X ident templateBytes textBytes templateFile w of
           (Inl err, w1) \<Rightarrow>
             (let deprecatedPrefix = ''deprecated_''
              in if HasPrefix ident deprecatedPrefix then
                   (let w2 = Logger_Infof (Info_retrying ident) w1;
                        altTextFile = Join [textSrcDir, TrimPrefix (ident @ ''.txt'') deprecatedPrefix]
                    in case os_ReadFile (fsys w2) altTextFile of
                         Inl err2 \<Rightarrow> (Inl err2, w2)
                       | Inr textBytes2 \<Rightarrow>
                           (case call_validate X ident templateBytes textBytes2 templateFile w2 of
                              (r, w3) \<Rightarrow>
                                importSPDX_checked K X cfg ident templateName templateBytes textName textBytes2 precheckName r errorCount w3))
                 else importSPDX_checked K X cfg ident templateName templateBytes textName textBytes precheckName (Inl err) errorCount w1)
         | (Inr staticBlocks, w1) \<Rightarrow>
             importSPDX_write K X cfg templateName templateBytes textName textBytes precheckName staticBlocks errorCount w1)))"

fun importSPDX_loop :: "configurer \<Rightarrow> 'nd externals \<Rightarrow> viper \<Rightarrow> string \<Rightarrow> string \<Rightarrow> DirEntry list \<Rightarrow> nat \<Rightarrow> world \<Rightarrow> (error + nat) \<times> world" where
  "importSPDX_loop K X cfg templateSrcDir textSrcDir [] errorCount w = (Inr errorCount, w)"
| "importSPDX_loop K X cfg templateSrcDir textSrcDir (de # des) errorCount w =
     (case importSPDX_entry K X cfg templateSrcDir textSrcDir de errorCount w of
        (Inl err, w1) \<Rightarrow> (Inl err, w1)
      | (Inr n, w1) \<Rightarrow> importSPDX_loop K X cfg templateSrcDir textSrcDir des n w1)"

text \<open>importSPDX from the creation of the destination directories on: the two JSON
  files are written, the loop runs, and the error count decides the result.\<close>

definition importSPDX_copy :: "configurer \<Rightarrow> 'nd externals \<Rightarrow> viper \<Rightarrow> string \<Rightarrow> string \<Rightarrow> bytes \<Rightarrow> bytes \<Rightarrow> DirEntry list \<Rightarrow> world \<Rightarrow> error option \<times> world" where
  "importSPDX_copy K X cfg templateSrcDir textSrcDir SPDXLicenseListBytes SPDXExceptionsListBytes templateDEs w =
     (case MkdirAllSPDX K cfg w of
        (Some err, w1) \<Rightarrow> (Some err, w1)
      | (None, w1) \<Rightarrow>
     (case WriteSPDXFile K cfg SPDXLicenseListBytes [''json'', ''licenses.json''] w1 of
        (Some err, w2) \<Rightarrow> (Some err, w2)
      | (None, w2) \<Rightarrow>
     (case WriteSPDXFile K cfg SPDXExceptionsListBytes [''json'', ''exceptions.json''] w2 of
        (Some err, w3) \<Rightarrow> (Some err, w3)
      | (None, w3) \<Rightarrow>
     (case importSPDX_loop K X cfg templateSrcDir textSrcDir templateDEs 0 w3 of
        (Inl err, w4) \<Rightarrow> (Some err, w4)
      | (Inr errorCount, w4) \<Rightarrow>
          if errorCount > 0 then (Some (NotValidated errorCount), w4) else (None, w4)))))"

definition importSPDX :: "configurer \<Rightarrow> 'nd externals \<Rightarrow> viper \<Rightarrow> world \<Rightarrow> error option \<times> world" where
  "importSPDX K X cfg w =
     (let addAllDir = cfg ''addAll'';
          addAllDir = (if \<not> IsAbs addAllDir then Join [importerDir K, ''..'', addAllDir] else addAllDir);
          licensesJSON = Join [addAllDir, ''json'', ''licenses.json''];
          exceptionsJSON = Join [addAllDir, ''json'', ''exceptions.json''];
          templateSrcDir = Join [addAllDir, ''template''];
          textSrcDir = Join [addAllDir, ''text'']
      in case os_ReadFile (fsys w) licensesJSON of
           Inl err \<Rightarrow> (Some (ReadLicenseListError licensesJSON err), w)
         | Inr SPDXLicenseListBytes \<Rightarrow>
        (case ReadSPDXLicenseListJSON X SPDXLicenseListBytes of
           Inl err \<Rightarrow> (Some (UnmarshalLicenseListError licensesJSON err), w)
         | Inr licenseList \<Rightarrow>
        (let licenseListVersion = LicenseListVersion licenseList
         in case os_ReadFile (fsys w) exceptionsJSON of
           Inl err \<Rightarrow> (Some (ReadExceptionsError exceptionsJSON err), w)
         | Inr SPDXExceptionsListBytes \<Rightarrow>
        (case ReadSPDXLicenseListJSON X SPDXExceptionsListBytes of
           Inl err \<Rightarrow> (Some (UnmarshalExceptionsError exceptionsJSON err), w)
         | Inr exceptionsList \<Rightarrow>
        (let exceptionsListVersion = LicenseListVersion exceptionsList
         in if licenseListVersion \<noteq> exceptionsListVersion
            then (Some (VersionMismatch licenseListVersion exceptionsListVersion), w)
            else
        (case os_ReadDir (fsys w) templateSrcDir of
           Inl err \<Rightarrow> (Some err, w)
         | Inr templateDEs \<Rightarrow>
             if length templateDEs < 1 then (Some (TemplateDirEmpty templateSrcDir), w)
             else importSPDX_copy K X cfg templateSrcDir textSrcDir
                    SPDXLicenseListBytes SPDXExceptionsListBytes templateDEs w))))))"

text \<open>The body of the inner loop of importCustom for one file of a license pattern
  directory: \<open>Some err\<close> returns \<open>err\<close> out of importCustom, \<open>None\<close> goes
  on with the next file.\<close>

definition importCustom_file :: "configurer \<Rightarrow> 'nd externals \<Rightarrow> viper \<Rightarrow> string \<Rightarrow> string \<Rightarrow> DirEntry \<Rightarrow> world \<Rightarrow> error option \<times> world" where
  "importCustom_file K X cfg ident idPath de w =
     (if IsDir de then (None, w)
      else
        let fileName = Name de;
            base = Base fileName;
            filePath = Join [idPath, fileName];
            lowerFileName = ToLower X fileName
        in if lowerFileName = LicenseInfoJSON X then
             (case os_ReadFile (fsys w) filePath of
                Inl err \<Rightarrow> (Some err, w)
              | Inr b \<Rightarrow>
                  (case ReadLicenseInfoJSON X b of
                     Some err \<Rightarrow>
                       (let (e, w1) = Logger_Errorf (UnmarshalLicenseInfoError filePath err) w
                        in (Some e, w1))
                   | None \<Rightarrow> WriteCustomFile K cfg b [''license_patterns'', ident, fileName] w))
           else if HasPrefix lowerFileName (PrimaryPattern X)
                   \<or> HasPrefix lowerFileName (AssociatedPattern X)
                   \<or> HasPrefix lowerFileName (OptionalPattern X) then
             (case os_ReadFile (fsys w) filePath of
                Inl err \<Rightarrow> (Some err, w)
              | Inr b \<Rightarrow>
                  (let (err, normalizedData) = NormalizeText X (NewNormalizationData X b True)
                   in case (if err = None
                            then GenerateRegexFromNormalizedText X (NormalizedText X normalizedData)
                            else None) of
                        Some e \<Rightarrow> (Some (CannotGenerateRe e), w)
                      | None \<Rightarrow>
                     (case WriteCustomFile K cfg b [''license_patterns'', ident, fileName] w of
                        (Some e, w1) \<Rightarrow> (Some e, w1)
                      | (None, w1) \<Rightarrow>
                     (let staticBlocks = GetStaticBlocks X normalizedData
                      in case getPreChecksBytes X staticBlocks of
                           Inl e \<Rightarrow>
                             (let (e2, w2) = Logger_Errorf (PreCheckBytesError base e) w1
                              in (Some e2, w2))
                         | Inr precheckBytes \<Rightarrow>
                             (let f = ''prechecks_'' @ base;
                                  ext = Ext f;
                                  f = take (length f - length ext) f @ ''.json''
                              in case WriteCustomFile K cfg precheckBytes [''license_patterns'', ident, f] w1 of
                                   (Some e, w2) \<Rightarrow>
                                     (let (e2, w3) = Logger_Errorf (WritePreCheckError fileName e) w2
                                      in (Some e2, w3))
                                 | (None, w2) \<Rightarrow> (None, w2))))))
           else (None, w))"

fun importCustom_files :: "configurer \<Rightarrow> 'nd externals \<Rightarrow> viper \<Rightarrow> string \<Rightarrow> string \<Rightarrow> DirEntry list \<Rightarrow> world \<Rightarrow> error option \<times> world" where
  "importCustom_files K X cfg ident idPath [] w = (None, w)"
| "importCustom_files K X cfg ident idPath (de # des) w =
     (case importCustom_file K X cfg ident idPath de w of
        (Some err, w1) \<Rightarrow> (Some err, w1)
      | (None, w1) \<Rightarrow> importCustom_files K X cfg ident idPath des w1)"

fun importCustom_ids :: "configurer \<Rightarrow> 'nd externals \<Rightarrow> viper \<Rightarrow> Resources \<Rightarrow> string list \<Rightarrow> world \<Rightarrow> error option \<times> world" where
  "importCustom_ids K X cfg inputResources [] w = (None, w)"
| "importCustom_ids K X cfg inputResources (ident # idents) w =
     (case ReadCustomLicensePatternsDir inputResources ident w of
        (Inl err, idPath) \<Rightarrow> (Some err, w)
      | (Inr des, idPath) \<Rightarrow>
     (case MkdirAllCustom K cfg ident w of
        (Some err, w1) \<Rightarrow> (Some err, w1)
      | (None, w1) \<Rightarrow>
     (case importCustom_files K X cfg ident idPath des w1 of
        (Some err, w2) \<Rightarrow> (Some err, w2)
      | (None, w2) \<Rightarrow> importCustom_ids K X cfg inputResources idents w2)))"

text \<open>importCustom reads the license pattern directories through a Resources value
  whose custom path is the input directory; the error of ReadCustomLicensePatternIds is
  not looked at.\<close>

definition importCustom :: "configurer \<Rightarrow> 'nd externals \<Rightarrow> viper \<Rightarrow> world \<Rightarrow> error option \<times> world" where
  "importCustom K X cfg w =
     (let addAllDir = cfg ''addAll'';
          addAllDir = (if \<not> IsAbs addAllDir then Join [importerDir K, ''..'', addAllDir] else addAllDir)
      in case InitConfig X of
           Inl err \<Rightarrow> (Some err, w)
         | Inr inputConfig0 \<Rightarrow>
             (let inputConfig = inputConfig0(CustomPathFlag K := addAllDir);
                  inputResources = NewResources K inputConfig;
                  (licenseIds, err) = ReadCustomLicensePatternIds inputResources w
              in importCustom_ids K X cfg inputResources licenseIds w))"

definition Import :: "configurer \<Rightarrow> 'nd externals \<Rightarrow> viper \<Rightarrow> world \<Rightarrow> error option \<times> world" where
  "Import K X cfg w =
     (if cfg (AddAllFlag K) = [] then (None, w)
      else
        let doImportSPDX = (cfg (SpdxPathFlag K) \<noteq> [] \<or> cfg (SpdxFlag K) \<noteq> DefaultResource K);
            doImportCustom = (cfg (CustomPathFlag K) \<noteq> [] \<or> cfg (CustomFlag K) \<noteq> DefaultResource K)
        in if \<not> doImportCustom \<and> \<not> doImportSPDX then (Some NoDestination, w)
           else if doImportCustom \<and> doImportSPDX then (Some BothDestinations, w)
           else
             (case (if doImportSPDX then importSPDX K X cfg w else (None, w)) of
                (Some err, w1) \<Rightarrow> (Some err, w1)
              | (None, w1) \<Rightarrow>
                  if doImportCustom then importCustom K X cfg w1 else (None, w1)))"

section \<open>Notions used in the statements\<close>

text \<open>An element that names a file or a directory in its parent: not empty, not
  \<open>.\<close> or \<open>..\<close>, and without a slash. The name of a directory entry is
  such an element.\<close>

definition plain :: "string \<Rightarrow> bool" where
  "plain e = (e \<noteq> [] \<and> e \<noteq> ''.'' \<and> e \<noteq> ''..'' \<and> CHR ''/'' \<notin> set e)"

text \<open>The string that path.Clean makes of a key.\<close>

definition render :: "fkey \<Rightarrow> string" where
  "render k =
     (if fst k then CHR ''/'' # joinSlash (snd k)
      else if snd k = [] then ''.''
      else joinSlash (snd k))"

text \<open>The shape of the stack of path.Clean: elements that name something, above
  \<open>..\<close> elements, of which a rooted path has none.\<close>

definition cleanForm :: "bool \<Rightarrow> string list \<Rightarrow> bool" where
  "cleanForm r out =
     (\<exists>ps n. out = ps @ replicate n ''..'' \<and> (\<forall>e\<in>set ps. plain e) \<and> (r \<longrightarrow> n = 0))"

text \<open>The key of a path followed by a slash and a second path.\<close>

definition keyExtend :: "fkey \<Rightarrow> string \<Rightarrow> fkey" where
  "keyExtend k b = (fst k, rev (foldl (cleanStep (fst k)) (rev (snd k)) (splitSlash b)))"

text \<open>A directory is populated when the table has an entry directly below it.\<close>

definition populated :: "filesys \<Rightarrow> string \<Rightarrow> bool" where
  "populated fs name = list_ex (\<lambda>(k, n). isChild (fkey name) k) fs"

text \<open>The files of a file system: the keys that hold a file, with its content.\<close>

definition fileAt :: "filesys \<Rightarrow> fkey \<Rightarrow> bytes option" where
  "fileAt fs k = (case map_of fs k of Some (File b) \<Rightarrow> Some b | _ \<Rightarrow> None)"

text \<open>The input directory of an import, as importSPDX and importCustom compute it
  from the configuration.\<close>

definition srcDir :: "configurer \<Rightarrow> viper \<Rightarrow> string" where
  "srcDir K cfg =
     (let addAllDir = cfg ''addAll''
      in if \<not> IsAbs addAllDir then Join [importerDir K, ''..'', addAllDir] else addAllDir)"

text \<open>The number of templates the Logger reported as not valid.\<close>

fun isNotValid :: "logline \<Rightarrow> bool" where
  "isNotValid (Error_logged (TemplateNotValid i)) = True"
| "isNotValid l = False"

definition notValidCount :: "world \<Rightarrow> nat" where
  "notValidCount w = length (filter isNotValid (logged w))"

section \<open>Example values\<close>

text \<open>Concrete values on which the theorems below are instantiated: flag names and
  directories, stand-ins for the functions taken as given, configurations and worlds.
  The stand-in for validate accepts a template exactly when the text equals it.\<close>

definition K0 :: configurer where
  "K0 = \<lparr>AddAllFlag = ''addAll'', SpdxPathFlag = ''spdxPath'', SpdxFlag = ''spdx'',
          CustomPathFlag = ''customPath'', CustomFlag = ''custom'',
          DefaultResource = ''default'', resourcesDir = ''/src/resources'',
          importerDir = ''/src/importer''\<rparr>"

definition X0 :: "unit externals" where
  "X0 = \<lparr>validate = (\<lambda>ident tb xb tf. if xb = tb then Inr [tb] else Inl (Foreign ''no match'')),
          getPreChecksBytes = (\<lambda>sb. Inr (concat sb)),
          ReadSPDXLicenseListJSON =
            (\<lambda>b. if b = [] then Inl (Foreign ''no JSON'') else Inr \<lparr>LicenseListVersion = b\<rparr>),
          ReadLicenseInfoJSON = (\<lambda>b. None),
          InitConfig = Inr (\<lambda>k. []),
          NewNormalizationData = (\<lambda>s p. ()),
          NormalizeText = (\<lambda>d. (None, d)),
          NormalizedText = (\<lambda>d. []),
          GenerateRegexFromNormalizedText = (\<lambda>s. None),
          GetStaticBlocks = (\<lambda>d. []),
          LicenseInfoJSON = ''license_info.json'',
          PrimaryPattern = ''license_'',
          AssociatedPattern = ''associated_'',
          OptionalPattern = ''optional_'',
          ToLower = (\<lambda>s. s)\<rparr>"

definition cfgOf :: "(string \<times> string) list \<Rightarrow> viper" where
  "cfgOf kvs = (\<lambda>k. case map_of kvs k of None \<Rightarrow> [] | Some v \<Rightarrow> v)"

definition cfgDefault :: viper where
  "cfgDefault = cfgOf [(''spdx'', ''default''), (''custom'', ''default'')]"

definition cfgSPDX :: viper where
  "cfgSPDX = cfgOf [(''addAll'', ''/in''), (''spdxPath'', ''/out''),
                    (''spdx'', ''default''), (''custom'', ''default'')]"

definition cfgCustom :: viper where
  "cfgCustom = cfgOf [(''addAll'', ''/in''), (''customPath'', ''/out''),
                      (''spdx'', ''default''), (''custom'', ''default'')]"

definition cfgNeither :: viper where
  "cfgNeither = cfgOf [(''addAll'', ''/in''), (''spdx'', ''default''), (''custom'', ''default'')]"

definition cfgBoth :: viper where
  "cfgBoth = cfgOf [(''addAll'', ''/in''), (''spdxPath'', ''/out''), (''customPath'', ''/out2''),
                    (''spdx'', ''default''), (''custom'', ''default'')]"

definition worldOf :: "filesys \<Rightarrow> world" where
  "worldOf fs = \<lparr>fsys = fs, embedded = [], logged = [], vcalls = []\<rparr>"

text \<open>An input directory with three templates: MIT, whose text matches; Bad, whose
  text does not; and deprecated_GPL, whose own text does not match and whose text without
  the prefix does. The worlds are the one before an import into /out, and the one at the
  start of the loop of importSPDX, when the directories and the two JSON files have been
  written.\<close>

definition fsIn :: filesys where
  "fsIn = [((True, [''in'', ''json'', ''licenses.json'']), File ''3.20''),
           ((True, [''in'', ''json'', ''exceptions.json'']), File ''3.20''),
           ((True, [''in'', ''template'']), Dir),
           ((True, [''in'', ''template'', ''MIT.template.txt'']), File ''mit''),
           ((True, [''in'', ''template'', ''Bad.template.txt'']), File ''bad''),
           ((True, [''in'', ''template'', ''deprecated_GPL.template.txt'']), File ''gpl''),
           ((True, [''in'', ''text'', ''MIT.txt'']), File ''mit''),
           ((True, [''in'', ''text'', ''Bad.txt'']), File ''other''),
           ((True, [''in'', ''text'', ''deprecated_GPL.txt'']), File ''old''),
           ((True, [''in'', ''text'', ''GPL.txt'']), File ''gpl'')]"

definition fsVersions :: filesys where
  "fsVersions = [((True, [''in'', ''json'', ''licenses.json'']), File ''3.20''),
                 ((True, [''in'', ''json'', ''exceptions.json'']), File ''3.19''),
                 ((True, [''in'', ''template'']), Dir),
                 ((True, [''in'', ''template'', ''MIT.template.txt'']), File ''mit''),
                 ((True, [''in'', ''text'', ''MIT.txt'']), File ''mit'')]"

definition deMIT :: DirEntry where
  "deMIT = \<lparr>Name = ''MIT.template.txt'', IsDir = False\<rparr>"

definition deBad :: DirEntry where
  "deBad = \<lparr>Name = ''Bad.template.txt'', IsDir = False\<rparr>"

definition deGPL :: DirEntry where
  "deGPL = \<lparr>Name = ''deprecated_GPL.template.txt'', IsDir = False\<rparr>"

definition wIn :: world where
  "wIn = worldOf fsIn"

definition wDirs :: world where
  "wDirs = snd (MkdirAllSPDX K0 cfgSPDX wIn)"

definition wJson1 :: world where
  "wJson1 = snd (WriteSPDXFile K0 cfgSPDX ''3.20'' [''json'', ''licenses.json''] wDirs)"

definition wLoop :: world where
  "wLoop = snd (WriteSPDXFile K0 cfgSPDX ''3.20'' [''json'', ''exceptions.json''] wJson1)"

section \<open>Properties\<close>

subsection \<open>Cleaned paths and their keys\<close>

lemma splitSlash_nonempty [simp]: "splitSlash s \<noteq> []"
  by (induction s) (auto split: list.splits)

lemma splitSlash_no_slash: "e \<in> set (splitSlash s) \<Longrightarrow> CHR ''/'' \<notin> set e"
  by (induction s arbitrary: e) (auto split: list.splits if_splits)

lemma splitSlash_append_slash:
  "splitSlash (a @ CHR ''/'' # b) = splitSlash a @ splitSlash b"
  by (induction a) (auto split: list.splits)

lemma splitSlash_plain: "CHR ''/'' \<notin> set s \<Longrightarrow> splitSlash s = [s]"
  by (induction s) auto

lemma splitSlash_joinSlash:
  "es \<noteq> [] \<Longrightarrow> \<forall>e\<in>set es. CHR ''/'' \<notin> set e \<Longrightarrow> splitSlash (joinSlash es) = es"
proof (induction es rule: joinSlash.induct)
  case 1
  then show ?case by simp
next
  case (2 x)
  then show ?case by (simp add: splitSlash_plain)
next
  case (3 x y ys)
  then show ?case by (simp add: splitSlash_append_slash splitSlash_plain)
qed

lemma joinSlash_snoc: "xs \<noteq> [] \<Longrightarrow> joinSlash (xs @ [c]) = joinSlash xs @ CHR ''/'' # c"
  by (induction xs rule: joinSlash.induct) auto

lemma cleanStep_plain: "plain e \<Longrightarrow> cleanStep r out e = e # out"
  by (simp add: cleanStep_def plain_def)

lemma foldl_cleanStep_plain:
  "\<forall>e\<in>set es. plain e \<Longrightarrow> foldl (cleanStep r) out es = rev es @ out"
  by (induction es arbitrary: out) (auto simp: cleanStep_plain)

lemma cleanForm_Nil: "cleanForm r []"
  by (simp add: cleanForm_def)

lemma cleanForm_step:
  assumes "cleanForm r out" and "CHR ''/'' \<notin> set e"
  shows "cleanForm r (cleanStep r out e)"
proof -
  from assms(1) obtain ps n where
    out: "out = ps @ replicate n ''..''" and ps: "\<forall>e\<in>set ps. plain e" and r: "r \<longrightarrow> n = 0"
    by (auto simp: cleanForm_def)
  consider "e = [] \<or> e = ''.''" | "e = ''..''" | "plain e"
    using assms(2) by (auto simp: plain_def)
  then show ?thesis
  proof cases
    case 1
    then show ?thesis using assms(1) by (auto simp: cleanStep_def)
  next
    case 2
    show ?thesis
    proof (cases ps)
      case Nil
      show ?thesis
      proof (cases n)
        case 0
        with Nil out 2 have "cleanStep r out e = [] @ replicate (if r then 0 else 1) ''..''"
          by (simp add: cleanStep_def)
        then show ?thesis
          unfolding cleanForm_def
          by (intro exI [of _ "[]"] exI [of _ "if r then 0 else 1"]) simp
      next
        case (Suc k)
        with Nil out 2 r have "cleanStep r out e = replicate (Suc (Suc k)) ''..''"
          by (simp add: cleanStep_def)
        moreover have "\<not> r" using r Suc by auto
        ultimately show ?thesis
          unfolding cleanForm_def
          by (intro exI [of _ "[]"] exI [of _ "Suc (Suc k)"]) simp
      qed
    next
      case (Cons p ps')
      with ps have "plain p" by simp
      then have "p \<noteq> ''..''" by (simp add: plain_def)
      with Cons out 2 have "cleanStep r out e = ps' @ replicate n ''..''"
        by (simp add: cleanStep_def)
      with ps r Cons show ?thesis
        unfolding cleanForm_def by (intro exI [of _ ps'] exI [of _ n]) simp
    qed
  next
    case 3
    then have "cleanStep r out e = (e # ps) @ replicate n ''..''"
      using out by (simp add: cleanStep_plain)
    with ps r 3 show ?thesis
      unfolding cleanForm_def by (intro exI [of _ "e # ps"] exI [of _ n]) simp
  qed
qed

lemma cleanForm_foldl:
  "cleanForm r out \<Longrightarrow> \<forall>e\<in>set es. CHR ''/'' \<notin> set e \<Longrightarrow>
     cleanForm r (foldl (cleanStep r) out es)"
  by (induction es arbitrary: out) (auto simp: cleanForm_step)

lemma foldl_cleanStep_dots:
  "\<not> r \<Longrightarrow> foldl (cleanStep r) (replicate k ''..'') (replicate n ''..'') = replicate (n + k) ''..''"
proof (induction n arbitrary: k)
  case 0
  then show ?case by simp
next
  case (Suc n)
  have "cleanStep r (replicate k ''..'') ''..'' = replicate (Suc k) ''..''"
    using Suc.prems by (cases k) (simp_all add: cleanStep_def)
  with Suc.IH [OF Suc.prems, of "Suc k"] show ?case by simp
qed

lemma cleanForm_again:
  assumes "cleanForm r out"
  shows "foldl (cleanStep r) [] (rev out) = out"
proof -
  from assms obtain ps n where
    out: "out = ps @ replicate n ''..''" and ps: "\<forall>e\<in>set ps. plain e" and r: "r \<longrightarrow> n = 0"
    by (auto simp: cleanForm_def)
  have d: "foldl (cleanStep r) [] (replicate n ''..'') = replicate n ''..''"
  proof (cases r)
    case True
    with r show ?thesis by simp
  next
    case False
    from foldl_cleanStep_dots [OF False, of 0 n] show ?thesis by simp
  qed
  have "foldl (cleanStep r) [] (rev out)
          = foldl (cleanStep r) (foldl (cleanStep r) [] (replicate n ''..'')) (rev ps)"
    by (simp add: out)
  also have "\<dots> = ps @ replicate n ''..''"
    using ps by (simp add: d foldl_cleanStep_plain)
  finally show ?thesis by (simp add: out)
qed

lemma cleanForm_elems:
  assumes "cleanForm r out" and "e \<in> set out"
  shows "e \<noteq> [] \<and> CHR ''/'' \<notin> set e"
proof -
  from assms(1) obtain ps n where
    out: "out = ps @ replicate n ''..''" and ps: "\<forall>e\<in>set ps. plain e"
    unfolding cleanForm_def by blast
  from assms(2) out have "e \<in> set ps \<or> e = ''..''"
    by (cases "n = 0") auto
  then show ?thesis
  proof
    assume "e \<in> set ps"
    with ps have "plain e" by blast
    then show ?thesis unfolding plain_def by blast
  next
    assume "e = ''..''"
    then show ?thesis by simp
  qed
qed

lemma cleanForm_cleanElems: "cleanForm (IsAbs p) (rev (cleanElems p))"
proof -
  have "cleanForm (IsAbs p) (foldl (cleanStep (IsAbs p)) [] (splitSlash p))"
    by (rule cleanForm_foldl [OF cleanForm_Nil]) (simp add: splitSlash_no_slash)
  then show ?thesis by (simp add: cleanElems_def)
qed

lemma joinSlash_nonempty: "es \<noteq> [] \<Longrightarrow> hd es \<noteq> [] \<Longrightarrow> joinSlash es \<noteq> []"
  by (induction es rule: joinSlash.induct) auto

lemma Clean_render: "p \<noteq> [] \<Longrightarrow> Clean p = render (fkey p)"
  by (simp add: Clean_def render_def fkey_def)

lemma IsAbs_hd: "IsAbs p \<longleftrightarrow> p \<noteq> [] \<and> hd p = CHR ''/''"
  by (cases p) (simp_all add: IsAbs_def)

lemma joinSlash_hd: "es \<noteq> [] \<Longrightarrow> hd es \<noteq> [] \<Longrightarrow> hd (joinSlash es) = hd (hd es)"
  by (induction es rule: joinSlash.induct) simp_all

lemma IsAbs_joinSlash:
  assumes "es \<noteq> []" and "\<forall>e\<in>set es. e \<noteq> [] \<and> CHR ''/'' \<notin> set e"
  shows "\<not> IsAbs (joinSlash es)"
proof -
  from assms have h: "hd es \<noteq> []" and n: "CHR ''/'' \<notin> set (hd es)"
    by (cases es; simp)+
  from h have "hd (hd es) \<in> set (hd es)" by simp
  with n have "hd (hd es) \<noteq> CHR ''/''" by metis
  with joinSlash_hd [OF assms(1) h] show ?thesis
    by (simp add: IsAbs_hd)
qed

lemma fkey_render:
  assumes "cleanForm (fst k) (rev (snd k))"
  shows "fkey (render k) = k"
proof -
  obtain r es where k: "k = (r, es)" by (cases k)
  with assms have f: "cleanForm r (rev es)" by simp
  have el: "\<forall>e\<in>set es. e \<noteq> [] \<and> CHR ''/'' \<notin> set e"
    using cleanForm_elems [OF f] by auto
  have again: "foldl (cleanStep r) [] es = rev es"
    using cleanForm_again [OF f] by simp
  show ?thesis
  proof (cases r)
    case True
    show ?thesis
    proof (cases "es = []")
      case True
      with \<open>r\<close> k show ?thesis
        by (simp add: render_def fkey_def IsAbs_def cleanElems_def cleanStep_def)
    next
      case False
      with \<open>r\<close> k el again show ?thesis
        by (simp add: render_def fkey_def IsAbs_def cleanElems_def splitSlash_joinSlash
            cleanStep_def)
    qed
  next
    case False
    note nr = False
    show ?thesis
    proof (cases "es = []")
      case True
      with nr k show ?thesis
        by (simp add: render_def fkey_def IsAbs_def cleanElems_def cleanStep_def)
    next
      case False
      from IsAbs_joinSlash [OF False el] have "\<not> IsAbs (joinSlash es)" .
      with False nr k el again show ?thesis
        by (simp add: render_def fkey_def cleanElems_def splitSlash_joinSlash)
    qed
  qed
qed

lemma fkey_Clean: "p \<noteq> [] \<Longrightarrow> fkey (Clean p) = fkey p"
  using fkey_render [of "fkey p"] cleanForm_cleanElems [of p]
  by (simp add: Clean_render fkey_def)

lemma Clean_nonempty: "Clean p \<noteq> []"
proof (cases "cleanElems p")
  case Nil
  then show ?thesis by (simp add: Clean_def)
next
  case (Cons e es)
  then have "e \<in> set (rev (cleanElems p))" by simp
  from cleanForm_elems [OF cleanForm_cleanElems this] have "e \<noteq> []" by simp
  with Cons have "joinSlash (cleanElems p) \<noteq> []"
    by (simp add: joinSlash_nonempty)
  then show ?thesis by (simp add: Clean_def)
qed

lemma Clean_idem: "Clean (Clean p) = Clean p"
proof (cases "p = []")
  case True
  then show ?thesis
    by (simp add: Clean_def IsAbs_def cleanElems_def cleanStep_def)
next
  case False
  have "Clean (Clean p) = render (fkey (Clean p))"
    by (rule Clean_render [OF Clean_nonempty])
  also have "\<dots> = render (fkey p)"
    by (simp only: fkey_Clean [OF False])
  also have "\<dots> = Clean p"
    by (simp only: Clean_render [OF False])
  finally show ?thesis .
qed


lemma IsAbs_append: "a \<noteq> [] \<Longrightarrow> IsAbs (a @ b) = IsAbs a"
  by (cases a) (simp_all add: IsAbs_def)

lemma fkey_append_slash: "a \<noteq> [] \<Longrightarrow> fkey (a @ CHR ''/'' # b) = keyExtend (fkey a) b"
  by (simp add: fkey_def keyExtend_def cleanElems_def splitSlash_append_slash IsAbs_append)

lemma fkey_empty: "fkey [] = (False, [])"
  by (simp add: fkey_def cleanElems_def cleanStep_def IsAbs_def)

lemma fkey_relative: "\<not> IsAbs b \<Longrightarrow> fkey b = keyExtend (False, []) b"
  by (simp add: fkey_def keyExtend_def cleanElems_def)

lemma fkey_Join2:
  assumes "b \<noteq> []" and "\<not> IsAbs b"
  shows "fkey (Join [a, b]) = keyExtend (fkey a) b"
proof (cases "a = []")
  case True
  with assms have "Join [a, b] = Clean b" by (simp add: Join_def)
  with assms True show ?thesis
    by (simp add: fkey_Clean fkey_empty fkey_relative)
next
  case False
  with assms have "Join [a, b] = Clean (a @ CHR ''/'' # b)" by (simp add: Join_def)
  with False show ?thesis
    by (simp add: fkey_Clean fkey_append_slash)
qed

lemma keyExtend_plain:
  assumes "es \<noteq> []" and "\<forall>e\<in>set es. plain e"
  shows "keyExtend k (joinSlash es) = (fst k, snd k @ es)"
proof -
  from assms(2) have "\<forall>e\<in>set es. CHR ''/'' \<notin> set e" by (simp add: plain_def)
  from splitSlash_joinSlash [OF assms(1) this] assms(2) show ?thesis
    by (simp add: keyExtend_def foldl_cleanStep_plain)
qed

lemma joinSlash_plain:
  assumes "es \<noteq> []" and "\<forall>e\<in>set es. plain e"
  shows "joinSlash es \<noteq> [] \<and> \<not> IsAbs (joinSlash es)"
proof -
  from assms have el: "\<forall>e\<in>set es. e \<noteq> [] \<and> CHR ''/'' \<notin> set e" by (simp add: plain_def)
  from assms(1) el have "hd es \<noteq> []" by (cases es) simp_all
  with assms(1) IsAbs_joinSlash [OF assms(1) el] show ?thesis
    by (simp add: joinSlash_nonempty)
qed

lemma Join_plain:
  assumes "es \<noteq> []" and "\<forall>e\<in>set es. plain e"
  shows "Join es = joinSlash es"
proof -
  from assms(2) have ne: "filter (\<lambda>e. e \<noteq> []) es = es"
    by (simp add: plain_def filter_id_conv)
  from assms(2) have ns: "\<forall>e\<in>set es. CHR ''/'' \<notin> set e" by (simp add: plain_def)
  from joinSlash_plain [OF assms] have j: "joinSlash es \<noteq> []" "\<not> IsAbs (joinSlash es)"
    by simp_all
  have "cleanElems (joinSlash es) = es"
    using j assms(2) splitSlash_joinSlash [OF assms(1) ns]
    by (simp add: cleanElems_def foldl_cleanStep_plain)
  with j assms(1) ne show ?thesis
    by (simp add: Join_def Clean_def)
qed

lemma fkey_Join_plain:
  assumes "es \<noteq> []" and "\<forall>e\<in>set es. plain e"
  shows "fkey (Join [d, Join es]) = (IsAbs d, cleanElems d @ es)"
proof -
  from joinSlash_plain [OF assms] have "joinSlash es \<noteq> []" "\<not> IsAbs (joinSlash es)"
    by simp_all
  from fkey_Join2 [OF this, of d] show ?thesis
    by (simp add: Join_plain [OF assms] keyExtend_plain [OF assms] fkey_def)
qed

lemma fkey_Join_joinSlash:
  assumes "es \<noteq> []" and "\<forall>e\<in>set es. plain e"
  shows "fkey (Join [d, joinSlash es]) = (IsAbs d, cleanElems d @ es)"
  using fkey_Join_plain [OF assms, of d] by (simp add: Join_plain [OF assms])

lemma Join_snoc:
  assumes "c \<noteq> []"
  shows "Join [Join xs, c] = Join (xs @ [c])"
proof (cases "filter (\<lambda>e. e \<noteq> []) xs = []")
  case True
  with assms show ?thesis by (simp add: Join_def)
next
  case False
  define ne where "ne = filter (\<lambda>e. e \<noteq> []) xs"
  define Y where "Y = joinSlash ne"
  from False have ne: "ne \<noteq> []" by (simp add: ne_def)
  have "hd ne \<in> set ne" using ne by simp
  then have "hd ne \<noteq> []" unfolding ne_def by (metis (mono_tags, lifting) mem_Collect_eq set_filter)
  with ne have Y: "Y \<noteq> []" by (simp add: Y_def joinSlash_nonempty)
  have l: "Join [Join xs, c] = Clean (Clean Y @ CHR ''/'' # c)"
    using False assms Clean_nonempty [of Y] by (simp add: Join_def ne_def Y_def)
  have r: "Join (xs @ [c]) = Clean (Y @ CHR ''/'' # c)"
    using False assms ne by (simp add: Join_def ne_def [symmetric] Y_def joinSlash_snoc)
  have "fkey (Clean Y @ CHR ''/'' # c) = fkey (Y @ CHR ''/'' # c)"
    using Y Clean_nonempty [of Y] by (simp add: fkey_append_slash fkey_Clean)
  then have "Clean (Clean Y @ CHR ''/'' # c) = Clean (Y @ CHR ''/'' # c)"
    by (simp add: Clean_render)
  with l r show ?thesis by simp
qed

lemma Join_clean_plain:
  assumes "plain n" and "snd (fkey T) \<noteq> []" and "Clean T = T"
  shows "Join [T, n] = T @ CHR ''/'' # n"
proof -
  from assms(3) Clean_nonempty [of T] have T: "T \<noteq> []" by simp
  from assms(1) have n: "n \<noteq> []" by (simp add: plain_def)
  obtain r es where k: "fkey T = (r, es)" by (cases "fkey T")
  with assms(2) have es: "es \<noteq> []" by simp
  have "Join [T, n] = Clean (T @ CHR ''/'' # n)"
    using T n by (simp add: Join_def)
  also have "\<dots> = render (keyExtend (fkey T) n)"
    using T by (simp add: Clean_render fkey_append_slash)
  also have "keyExtend (fkey T) n = (r, es @ [n])"
    using keyExtend_plain [of "[n]" "fkey T"] assms(1) k by simp
  also have "render (r, es @ [n]) = render (r, es) @ CHR ''/'' # n"
    using es by (simp add: render_def joinSlash_snoc)
  also have "render (r, es) = T"
    using Clean_render [OF T] assms(3) k by simp
  finally show ?thesis .
qed


subsection \<open>The reader is chosen by the path flag\<close>

text \<open>
  C7. getFileReader returns the embedded bundle exactly when the path flag reads as the
  empty string and the file-system reader exactly when it does not; two configurations
  that agree on the path flag and on the embedded flag get the same reader and path. The
  constructor NewResources stores what getSPDXReader and getCustomReader return, and the
  methods that read through the stored reader give what the functions that ask for the
  reader at each call give.
\<close>

theorem getFileReader_variant:
  "(fst (getFileReader cfg pathFlag embeddedFlag) = embeddedFS \<longleftrightarrow> cfg pathFlag = [])
   \<and> (fst (getFileReader cfg pathFlag embeddedFlag) = osReader \<longleftrightarrow> cfg pathFlag \<noteq> [])
   \<and> (cfg pathFlag = cfg' pathFlag \<and> cfg embeddedFlag = cfg' embeddedFlag
        \<longrightarrow> getFileReader cfg pathFlag embeddedFlag = getFileReader cfg' pathFlag embeddedFlag)
   \<and> (spdxReader (NewResources K cfg), spdxPath (NewResources K cfg)) = getSPDXReader K cfg
   \<and> (customReader (NewResources K cfg), customPath (NewResources K cfg)) = getCustomReader K cfg
   \<and> Resources_ReadSPDXTemplateFile (NewResources K cfg) ident dep w
       = ReadSPDXTemplateFile K cfg ident dep w
   \<and> Resources_ReadSPDXPreCheckFile (NewResources K cfg) ident dep w
       = ReadSPDXPreCheckFile K cfg ident dep w"
  by (simp add: getFileReader_def getSPDXReader_def getCustomReader_def NewResources_def Let_def
      Resources_ReadSPDXTemplateFile_def ReadSPDXTemplateFile_def
      Resources_ReadSPDXPreCheckFile_def ReadSPDXPreCheckFile_def split: prod.splits)

theorem getFileReader_variant_witness:
  "fst (getFileReader cfgSPDX ''spdxPath'' ''spdx'') = osReader
   \<and> fst (getFileReader cfgSPDX ''customPath'' ''custom'') = embeddedFS
   \<and> getFileReader cfgSPDX ''customPath'' ''custom''
       = getFileReader cfgNeither ''customPath'' ''custom''"
proof -
  have a: "cfgSPDX ''spdxPath'' \<noteq> []"
    by (simp add: cfgSPDX_def cfgOf_def)
  have b: "cfgSPDX ''customPath'' = []"
    by (simp add: cfgSPDX_def cfgOf_def)
  have c: "cfgSPDX ''customPath'' = cfgNeither ''customPath''
           \<and> cfgSPDX ''custom'' = cfgNeither ''custom''"
    by (simp add: cfgSPDX_def cfgNeither_def cfgOf_def)
  show ?thesis
    using a b c getFileReader_variant [of cfgSPDX "''spdxPath''" "''spdx''"]
      getFileReader_variant [of cfgSPDX "''customPath''" "''custom''" cfgNeither]
    by blast
qed

subsection \<open>The gate of Import\<close>

text \<open>
  C8. Import returns no error and leaves the world as it is when the add-all flag reads
  as the empty string. Otherwise it returns an error, and leaves the world as it is, both
  when neither the SPDX nor the custom destination is non-default and when both are; and
  it is importSPDX when only the SPDX destination is non-default, importCustom when only
  the custom destination is.
\<close>

theorem Import_gate:
  "(cfg (AddAllFlag K) = [] \<longrightarrow> Import K X cfg w = (None, w))
   \<and> (cfg (AddAllFlag K) \<noteq> []
        \<and> \<not> (cfg (SpdxPathFlag K) \<noteq> [] \<or> cfg (SpdxFlag K) \<noteq> DefaultResource K)
        \<and> \<not> (cfg (CustomPathFlag K) \<noteq> [] \<or> cfg (CustomFlag K) \<noteq> DefaultResource K)
        \<longrightarrow> Import K X cfg w = (Some NoDestination, w))
   \<and> (cfg (AddAllFlag K) \<noteq> []
        \<and> (cfg (SpdxPathFlag K) \<noteq> [] \<or> cfg (SpdxFlag K) \<noteq> DefaultResource K)
        \<and> (cfg (CustomPathFlag K) \<noteq> [] \<or> cfg (CustomFlag K) \<noteq> DefaultResource K)
        \<longrightarrow> Import K X cfg w = (Some BothDestinations, w))
   \<and> (cfg (AddAllFlag K) \<noteq> []
        \<and> (cfg (SpdxPathFlag K) \<noteq> [] \<or> cfg (SpdxFlag K) \<noteq> DefaultResource K)
        \<and> \<not> (cfg (CustomPathFlag K) \<noteq> [] \<or> cfg (CustomFlag K) \<noteq> DefaultResource K)
        \<longrightarrow> Import K X cfg w = importSPDX K X cfg w)
   \<and> (cfg (AddAllFlag K) \<noteq> []
        \<and> \<not> (cfg (SpdxPathFlag K) \<noteq> [] \<or> cfg (SpdxFlag K) \<noteq> DefaultResource K)
        \<and> (cfg (CustomPathFlag K) \<noteq> [] \<or> cfg (CustomFlag K) \<noteq> DefaultResource K)
        \<longrightarrow> Import K X cfg w = importCustom K X cfg w)"
  by (auto simp add: Import_def Let_def split: prod.splits option.splits)

theorem Import_gate_witness:
  "Import K0 X0 cfgDefault (worldOf []) = (None, worldOf [])
   \<and> Import K0 X0 cfgNeither (worldOf []) = (Some NoDestination, worldOf [])
   \<and> Import K0 X0 cfgBoth (worldOf []) = (Some BothDestinations, worldOf [])
   \<and> Import K0 X0 cfgSPDX (worldOf []) = importSPDX K0 X0 cfgSPDX (worldOf [])
   \<and> Import K0 X0 cfgCustom (worldOf []) = importCustom K0 X0 cfgCustom (worldOf [])"
  using Import_gate [of cfgDefault K0 X0 "worldOf []"]
    Import_gate [of cfgNeither K0 X0 "worldOf []"]
    Import_gate [of cfgBoth K0 X0 "worldOf []"]
    Import_gate [of cfgSPDX K0 X0 "worldOf []"]
    Import_gate [of cfgCustom K0 X0 "worldOf []"]
  by (simp add: cfgDefault_def cfgNeither_def cfgBoth_def cfgSPDX_def cfgCustom_def cfgOf_def K0_def)

subsection \<open>The loop of importSPDX\<close>

lemma writeFile_keeps:
  "writeFile f b w = (r, w') \<Longrightarrow>
     logged w' = logged w \<and> vcalls w' = vcalls w \<and> embedded w' = embedded w"
  by (auto simp: writeFile_def split: sum.splits)

lemma WriteSPDXFile_keeps:
  "WriteSPDXFile K cfg b ff w = (r, w') \<Longrightarrow>
     logged w' = logged w \<and> vcalls w' = vcalls w \<and> embedded w' = embedded w"
  unfolding WriteSPDXFile_def Let_def by (rule writeFile_keeps)

lemma writeSPDXFiles_keeps:
  assumes "writeSPDXFiles K X cfg tn tb xn xb pn sb w = (r, w')"
  shows "vcalls w' = vcalls w \<and> notValidCount w' = notValidCount w"
  using assms
  by (auto simp: writeSPDXFiles_def Logger_Errorf_def notValidCount_def
      split: prod.splits option.splits sum.splits dest!: WriteSPDXFile_keeps)

lemma writeInvalidSPDXFiles_keeps:
  "vcalls (writeInvalidSPDXFiles K cfg tn tb xn xb w) = vcalls w
   \<and> notValidCount (writeInvalidSPDXFiles K cfg tn tb xn xb w) = notValidCount w"
  by (auto simp: writeInvalidSPDXFiles_def Logger_Errorf_def notValidCount_def Let_def
      split: prod.splits option.splits dest!: WriteSPDXFile_keeps)

lemma importSPDX_write_keeps:
  assumes "importSPDX_write K X cfg tn tb xn xb pn sb n w = (r, w')"
  shows "vcalls w' = vcalls w \<and> notValidCount w' = notValidCount w \<and> (r = Inr n \<or> isl r)"
  using assms
  by (auto simp: importSPDX_write_def split: prod.splits option.splits dest!: writeSPDXFiles_keeps)

lemma importSPDX_checked_count:
  assumes "importSPDX_checked K X cfg i tn tb xn xb pn r n w = (Inr m, w')"
  shows "n \<le> m \<and> m + notValidCount w = n + notValidCount w'"
  using assms
  by (auto simp: importSPDX_checked_def Let_def Logger_Errorf_def writeInvalidSPDXFiles_keeps
      split: sum.splits dest!: importSPDX_write_keeps)
     (simp add: notValidCount_def)

lemma importSPDX_entry_count:
  assumes "importSPDX_entry K X cfg tdir xdir de n w = (Inr m, w')"
  shows "n \<le> m \<and> m + notValidCount w = n + notValidCount w'"
  using assms
  apply (simp add: importSPDX_entry_def Let_def call_validate_def Logger_Infof_def
      split: sum.splits if_splits)
    apply (drule importSPDX_checked_count, simp add: notValidCount_def)
   apply (drule importSPDX_checked_count, simp add: notValidCount_def)
  apply (drule importSPDX_write_keeps, simp add: notValidCount_def)
  done

lemma importSPDX_loop_count:
  "importSPDX_loop K X cfg tdir xdir des n w = (Inr m, w') \<Longrightarrow>
     n \<le> m \<and> m + notValidCount w = n + notValidCount w'"
proof (induction des arbitrary: n w)
  case Nil
  then show ?case by simp
next
  case (Cons de des)
  from Cons.prems obtain k w1 where
    e: "importSPDX_entry K X cfg tdir xdir de n w = (Inr k, w1)" and
    l: "importSPDX_loop K X cfg tdir xdir des k w1 = (Inr m, w')"
    by (auto split: prod.splits sum.splits)
  from importSPDX_entry_count [OF e] Cons.IH [OF l] show ?case
    by arith
qed

lemma HasPrefix_append: "HasPrefix s p \<Longrightarrow> HasPrefix (s @ t) p"
  by (induction s p rule: HasPrefix.induct) auto

lemma HasPrefix_length: "HasPrefix s p \<Longrightarrow> length p \<le> length s"
  by (induction s p rule: HasPrefix.induct) auto

lemma TrimPrefix_append:
  "HasPrefix s p \<Longrightarrow> TrimPrefix (s @ t) p = drop (length p) s @ t"
  by (simp add: TrimPrefix_def HasPrefix_append HasPrefix_length)

lemma importSPDX_entry_retry:
  assumes "ident = TrimSuffix (Name de) ''.template.txt''"
    and "tf = Join [tdir, Name de]"
    and "os_ReadFile (fsys w) tf = Inr tb"
    and "os_ReadFile (fsys w) (Join [xdir, ident @ ''.txt'']) = Inr xb"
    and "validate X ident tb xb tf = Inl e1"
    and "HasPrefix ident ''deprecated_''"
    and "os_ReadFile (fsys w) (Join [xdir, TrimPrefix (ident @ ''.txt'') ''deprecated_'']) = Inr ab"
  shows "importSPDX_entry K X cfg tdir xdir de n w =
           importSPDX_checked K X cfg ident (Name de) tb (ident @ ''.txt'') ab (ident @ ''.json'')
             (validate X ident tb ab tf) n
             (w\<lparr>logged := logged w @ [Info_retrying ident],
                vcalls := vcalls w @ [(ident, tb, xb, tf), (ident, tb, ab, tf)]\<rparr>)"
  using assms
  by (simp add: importSPDX_entry_def Let_def call_validate_def Logger_Infof_def)

lemma importSPDX_entry_no_retry:
  assumes "ident = TrimSuffix (Name de) ''.template.txt''"
    and "tf = Join [tdir, Name de]"
    and "os_ReadFile (fsys w) tf = Inr tb"
    and "os_ReadFile (fsys w) (Join [xdir, ident @ ''.txt'']) = Inr xb"
    and "validate X ident tb xb tf = Inl e1"
    and "\<not> HasPrefix ident ''deprecated_''"
  shows "importSPDX_entry K X cfg tdir xdir de n w =
           importSPDX_checked K X cfg ident (Name de) tb (ident @ ''.txt'') xb (ident @ ''.json'')
             (Inl e1) n (w\<lparr>vcalls := vcalls w @ [(ident, tb, xb, tf)]\<rparr>)"
  using assms
  by (simp add: importSPDX_entry_def Let_def call_validate_def Logger_Infof_def)

lemma importSPDX_checked_invalid:
  "importSPDX_checked K X cfg ident tn tb xn xb pn (Inl e) n w =
     (Inr (Suc n),
      writeInvalidSPDXFiles K cfg tn tb xn xb
        (w\<lparr>logged := logged w @ [Error_logged (TemplateNotValid ident)]\<rparr>))"
  by (simp add: importSPDX_checked_def Logger_Errorf_def)

lemma importSPDX_checked_valid:
  "importSPDX_checked K X cfg ident tn tb xn xb pn (Inr sb) n w =
     importSPDX_write K X cfg tn tb xn xb pn sb n w"
  by (simp add: importSPDX_checked_def)

lemma world_swap:
  "w\<lparr>vcalls := V, logged := L\<rparr> = w\<lparr>logged := L, vcalls := V\<rparr>"
  by simp

lemma importSPDX_write_not_counted:
  "fst (importSPDX_write K X cfg tn tb xn xb pn sb n w) \<noteq> Inr (Suc n)"
  by (simp add: importSPDX_write_def split: prod.splits option.splits)

lemma importSPDX_write_vcalls:
  "vcalls (snd (importSPDX_write K X cfg tn tb xn xb pn sb n w)) = vcalls w"
  using importSPDX_write_keeps [of K X cfg tn tb xn xb pn sb n w]
  by (cases "importSPDX_write K X cfg tn tb xn xb pn sb n w") simp

text \<open>
  C1. A template whose validation fails, after the retry that a deprecated identifier
  gets, adds one to the error count, is reported by the Logger as not valid, and the loop
  goes on with the remaining entries. When the loop has run through all entries the error
  count is the number of templates reported as not valid, and importSPDX returns the
  error "templates could not be validated" exactly when that count is not zero. (A file
  that cannot be read, or a valid template whose files cannot be written, returns at
  once: these are errors of the file system, not of the validation.)
\<close>

theorem importSPDX_counts_failures:
  fixes de :: DirEntry and tdir xdir :: string
  defines "templateName \<equiv> Name de"
  defines "ident \<equiv> TrimSuffix templateName ''.template.txt''"
  defines "templateFile \<equiv> Join [tdir, templateName]"
  defines "textFile \<equiv> Join [xdir, ident @ ''.txt'']"
  defines "altTextFile \<equiv> Join [xdir, TrimPrefix (ident @ ''.txt'') ''deprecated_'']"
  shows
  "(os_ReadFile (fsys w) templateFile = Inr tb
      \<and> os_ReadFile (fsys w) textFile = Inr xb
      \<and> validate X ident tb xb templateFile = Inl e1
      \<and> (HasPrefix ident ''deprecated_'' \<longrightarrow>
            os_ReadFile (fsys w) altTextFile = Inr ab
            \<and> validate X ident tb ab templateFile = Inl e2)
     \<longrightarrow> (\<exists>w1. importSPDX_entry K X cfg tdir xdir de n w = (Inr (Suc n), w1)
              \<and> notValidCount w1 = Suc (notValidCount w)
              \<and> importSPDX_loop K X cfg tdir xdir (de # des) n w
                  = importSPDX_loop K X cfg tdir xdir des (Suc n) w1))
   \<and> (importSPDX_loop K X cfg tdir xdir des n w = (Inr m, w')
        \<longrightarrow> m = n + (notValidCount w' - notValidCount w))
   \<and> (MkdirAllSPDX K cfg w = (None, wa)
        \<and> WriteSPDXFile K cfg lb [''json'', ''licenses.json''] wa = (None, wb)
        \<and> WriteSPDXFile K cfg eb [''json'', ''exceptions.json''] wb = (None, wc)
        \<and> importSPDX_loop K X cfg tdir xdir des 0 wc = (Inr m, w')
        \<longrightarrow> importSPDX_copy K X cfg tdir xdir lb eb des w
              = ((if m = 0 then None else Some (NotValidated m)), w')
            \<and> m = notValidCount w' - notValidCount wc)"
proof (intro conjI impI)
  assume h: "os_ReadFile (fsys w) templateFile = Inr tb
      \<and> os_ReadFile (fsys w) textFile = Inr xb
      \<and> validate X ident tb xb templateFile = Inl e1
      \<and> (HasPrefix ident ''deprecated_'' \<longrightarrow>
            os_ReadFile (fsys w) altTextFile = Inr ab
            \<and> validate X ident tb ab templateFile = Inl e2)"
  obtain r w1 where e: "importSPDX_entry K X cfg tdir xdir de n w = (r, w1)"
    by (cases "importSPDX_entry K X cfg tdir xdir de n w")
  have r: "r = Inr (Suc n)"
  proof (cases "HasPrefix ident ''deprecated_''")
    case True
    with h importSPDX_entry_retry [of ident de templateFile tdir w tb xdir xb X e1 ab K cfg n]
    show ?thesis
      using e by (simp add: importSPDX_checked_invalid ident_def templateName_def
          templateFile_def textFile_def altTextFile_def)
  next
    case False
    with h importSPDX_entry_no_retry [of ident de templateFile tdir w tb xdir xb X e1 K cfg n]
    show ?thesis
      using e by (simp add: importSPDX_checked_invalid ident_def templateName_def
          templateFile_def textFile_def)
  qed
  from importSPDX_entry_count [of K X cfg tdir xdir de n w "Suc n" w1] e r
  have c: "notValidCount w1 = Suc (notValidCount w)" by simp
  show "\<exists>w1. importSPDX_entry K X cfg tdir xdir de n w = (Inr (Suc n), w1)
              \<and> notValidCount w1 = Suc (notValidCount w)
              \<and> importSPDX_loop K X cfg tdir xdir (de # des) n w
                  = importSPDX_loop K X cfg tdir xdir des (Suc n) w1"
    using e r c by auto
next
  assume "importSPDX_loop K X cfg tdir xdir des n w = (Inr m, w')"
  from importSPDX_loop_count [OF this] show "m = n + (notValidCount w' - notValidCount w)"
    by arith
next
  assume h: "MkdirAllSPDX K cfg w = (None, wa)
        \<and> WriteSPDXFile K cfg lb [''json'', ''licenses.json''] wa = (None, wb)
        \<and> WriteSPDXFile K cfg eb [''json'', ''exceptions.json''] wb = (None, wc)
        \<and> importSPDX_loop K X cfg tdir xdir des 0 wc = (Inr m, w')"
  then show "importSPDX_copy K X cfg tdir xdir lb eb des w
              = ((if m = 0 then None else Some (NotValidated m)), w')"
    by (simp add: importSPDX_copy_def)
next
  assume h: "MkdirAllSPDX K cfg w = (None, wa)
        \<and> WriteSPDXFile K cfg lb [''json'', ''licenses.json''] wa = (None, wb)
        \<and> WriteSPDXFile K cfg eb [''json'', ''exceptions.json''] wb = (None, wc)
        \<and> importSPDX_loop K X cfg tdir xdir des 0 wc = (Inr m, w')"
  then have "importSPDX_loop K X cfg tdir xdir des 0 wc = (Inr m, w')" by simp
  from importSPDX_loop_count [OF this] show "m = notValidCount w' - notValidCount wc"
    by arith
qed

theorem importSPDX_counts_failures_witness:
  "(\<exists>w1. importSPDX_entry K0 X0 cfgSPDX ''/in/template'' ''/in/text'' deBad 0 wLoop
            = (Inr (Suc 0), w1)
         \<and> notValidCount w1 = Suc (notValidCount wLoop)
         \<and> importSPDX_loop K0 X0 cfgSPDX ''/in/template'' ''/in/text'' (deBad # [deMIT, deGPL]) 0 wLoop
             = importSPDX_loop K0 X0 cfgSPDX ''/in/template'' ''/in/text'' [deMIT, deGPL] (Suc 0) w1)
   \<and> importSPDX_copy K0 X0 cfgSPDX ''/in/template'' ''/in/text'' ''3.20'' ''3.20''
        [deBad, deMIT, deGPL] wIn
       = (Some (NotValidated 1),
          snd (importSPDX_loop K0 X0 cfgSPDX ''/in/template'' ''/in/text'' [deBad, deMIT, deGPL] 0 wLoop))
   \<and> notValidCount
        (snd (importSPDX_loop K0 X0 cfgSPDX ''/in/template'' ''/in/text'' [deBad, deMIT, deGPL] 0 wLoop))
       - notValidCount wLoop = 1"
proof -
  have a: "os_ReadFile (fsys wLoop) (Join [''/in/template'', Name deBad]) = Inr ''bad''
      \<and> os_ReadFile (fsys wLoop)
          (Join [''/in/text'', TrimSuffix (Name deBad) ''.template.txt'' @ ''.txt'']) = Inr ''other''
      \<and> validate X0 (TrimSuffix (Name deBad) ''.template.txt'') ''bad'' ''other''
          (Join [''/in/template'', Name deBad]) = Inl (Foreign ''no match'')
      \<and> \<not> HasPrefix (TrimSuffix (Name deBad) ''.template.txt'') ''deprecated_''"
    by code_simp
  have b: "fst (importSPDX_loop K0 X0 cfgSPDX ''/in/template'' ''/in/text''
                 [deBad, deMIT, deGPL] 0 wLoop) = Inr 1"
    by code_simp
  have c: "fst (MkdirAllSPDX K0 cfgSPDX wIn) = None
      \<and> fst (WriteSPDXFile K0 cfgSPDX ''3.20'' [''json'', ''licenses.json''] wDirs) = None
      \<and> fst (WriteSPDXFile K0 cfgSPDX ''3.20'' [''json'', ''exceptions.json''] wJson1) = None"
    by code_simp
  define wEnd where
    "wEnd = snd (importSPDX_loop K0 X0 cfgSPDX ''/in/template'' ''/in/text'' [deBad, deMIT, deGPL] 0 wLoop)"
  have b': "importSPDX_loop K0 X0 cfgSPDX ''/in/template'' ''/in/text'' [deBad, deMIT, deGPL] 0 wLoop
              = (Inr 1, wEnd)"
    using b by (simp add: wEnd_def prod_eq_iff)
  have c': "MkdirAllSPDX K0 cfgSPDX wIn = (None, wDirs)
      \<and> WriteSPDXFile K0 cfgSPDX ''3.20'' [''json'', ''licenses.json''] wDirs = (None, wJson1)
      \<and> WriteSPDXFile K0 cfgSPDX ''3.20'' [''json'', ''exceptions.json''] wJson1 = (None, wLoop)"
    using c by (simp add: wDirs_def wJson1_def wLoop_def prod_eq_iff)
  note t1 = importSPDX_counts_failures [where de = deBad and tdir = "''/in/template''"
      and xdir = "''/in/text''" and w = wLoop and tb = "''bad''" and xb = "''other''"
      and X = X0 and ?e1.0 = "Foreign ''no match''" and K = K0 and cfg = cfgSPDX and n = 0
      and des = "[deMIT, deGPL]"]
  note t2 = importSPDX_counts_failures [where de = deBad and tdir = "''/in/template''"
      and xdir = "''/in/text''" and w = wIn and X = X0 and K = K0 and cfg = cfgSPDX
      and des = "[deBad, deMIT, deGPL]" and m = 1 and w' = wEnd and wa = wDirs and wb = wJson1
      and wc = wLoop and lb = "''3.20''" and eb = "''3.20''"]
  from t1 a have 1: "\<exists>w1. importSPDX_entry K0 X0 cfgSPDX ''/in/template'' ''/in/text'' deBad 0 wLoop
            = (Inr (Suc 0), w1)
         \<and> notValidCount w1 = Suc (notValidCount wLoop)
         \<and> importSPDX_loop K0 X0 cfgSPDX ''/in/template'' ''/in/text'' (deBad # [deMIT, deGPL]) 0 wLoop
             = importSPDX_loop K0 X0 cfgSPDX ''/in/template'' ''/in/text'' [deMIT, deGPL] (Suc 0) w1"
    by blast
  from t2 b' c' have 2: "importSPDX_copy K0 X0 cfgSPDX ''/in/template'' ''/in/text'' ''3.20'' ''3.20''
        [deBad, deMIT, deGPL] wIn = (Some (NotValidated 1), wEnd)
      \<and> 1 = notValidCount wEnd - notValidCount wLoop"
    by simp
  from 1 2 show ?thesis unfolding wEnd_def by simp
qed

text \<open>
  C3. For an identifier that starts with \<open>deprecated_\<close> and whose first
  validation fails, the text is read again from the file named without the prefix. When
  that file can be read, validate is called exactly once more, on the same template and
  the second text; the identifier is counted, and the template and the second text are
  stashed under testdata/invalid, exactly when this second call fails too; when it
  succeeds the files are written as for any valid template and nothing is counted. When
  the second file cannot be read the import returns that error. The first failure is the
  error that validate returned: the retry is a decision of importSPDX.
\<close>

theorem importSPDX_deprecated_retry:
  fixes de :: DirEntry and tdir xdir :: string
  defines "ident \<equiv> TrimSuffix (Name de) ''.template.txt''"
  defines "templateFile \<equiv> Join [tdir, Name de]"
  defines "altTextFile \<equiv> Join [xdir, TrimPrefix (ident @ ''.txt'') ''deprecated_'']"
  assumes dep: "HasPrefix ident ''deprecated_''"
    and rt: "os_ReadFile (fsys w) templateFile = Inr tb"
    and rx: "os_ReadFile (fsys w) (Join [xdir, ident @ ''.txt'']) = Inr xb"
    and v1: "validate X ident tb xb templateFile = Inl e1"
  shows
  "altTextFile = Join [xdir, drop (length ''deprecated_'') ident @ ''.txt'']
   \<and> (\<forall>ab. os_ReadFile (fsys w) altTextFile = Inr ab \<longrightarrow>
         vcalls (snd (importSPDX_entry K X cfg tdir xdir de n w))
           = vcalls w @ [(ident, tb, xb, templateFile), (ident, tb, ab, templateFile)]
         \<and> (fst (importSPDX_entry K X cfg tdir xdir de n w) = Inr (Suc n)
              \<longleftrightarrow> isl (validate X ident tb ab templateFile))
         \<and> (isl (validate X ident tb ab templateFile) \<longrightarrow>
              snd (importSPDX_entry K X cfg tdir xdir de n w)
                = writeInvalidSPDXFiles K cfg (Name de) tb (ident @ ''.txt'') ab
                    (w\<lparr>logged := logged w @ [Info_retrying ident, Error_logged (TemplateNotValid ident)],
                       vcalls := vcalls w @ [(ident, tb, xb, templateFile), (ident, tb, ab, templateFile)]\<rparr>))
         \<and> (\<forall>sb. validate X ident tb ab templateFile = Inr sb \<longrightarrow>
              importSPDX_entry K X cfg tdir xdir de n w
                = importSPDX_write K X cfg (Name de) tb (ident @ ''.txt'') ab (ident @ ''.json'') sb n
                    (w\<lparr>logged := logged w @ [Info_retrying ident],
                       vcalls := vcalls w @ [(ident, tb, xb, templateFile), (ident, tb, ab, templateFile)]\<rparr>)))
   \<and> (\<forall>err. os_ReadFile (fsys w) altTextFile = Inl err \<longrightarrow>
         fst (importSPDX_entry K X cfg tdir xdir de n w) = Inl err
         \<and> vcalls (snd (importSPDX_entry K X cfg tdir xdir de n w))
             = vcalls w @ [(ident, tb, xb, templateFile)])"
proof (intro conjI allI impI)
  show "altTextFile = Join [xdir, drop (length ''deprecated_'') ident @ ''.txt'']"
    unfolding altTextFile_def using dep by (simp only: TrimPrefix_append)
next
  fix ab
  assume ra: "os_ReadFile (fsys w) altTextFile = Inr ab"
  note eq = importSPDX_entry_retry [OF ident_def [THEN meta_eq_to_obj_eq]
      templateFile_def [THEN meta_eq_to_obj_eq] rt rx v1 dep
      ra [unfolded altTextFile_def], of K cfg n]
  show "vcalls (snd (importSPDX_entry K X cfg tdir xdir de n w))
           = vcalls w @ [(ident, tb, xb, templateFile), (ident, tb, ab, templateFile)]"
    unfolding eq
    by (cases "validate X ident tb ab templateFile")
      (simp_all add: importSPDX_checked_invalid writeInvalidSPDXFiles_keeps
        importSPDX_checked_valid importSPDX_write_vcalls)
  show "fst (importSPDX_entry K X cfg tdir xdir de n w) = Inr (Suc n)
              \<longleftrightarrow> isl (validate X ident tb ab templateFile)"
    unfolding eq
    by (cases "validate X ident tb ab templateFile")
      (simp_all add: importSPDX_checked_invalid importSPDX_checked_valid
        importSPDX_write_not_counted)
  {
    assume "isl (validate X ident tb ab templateFile)"
    then show "snd (importSPDX_entry K X cfg tdir xdir de n w)
                = writeInvalidSPDXFiles K cfg (Name de) tb (ident @ ''.txt'') ab
                    (w\<lparr>logged := logged w @ [Info_retrying ident, Error_logged (TemplateNotValid ident)],
                       vcalls := vcalls w @ [(ident, tb, xb, templateFile), (ident, tb, ab, templateFile)]\<rparr>)"
      unfolding eq
      by (cases "validate X ident tb ab templateFile")
        (simp_all add: importSPDX_checked_invalid, subst world_swap, rule refl)
  }
  {
    fix sb
    assume "validate X ident tb ab templateFile = Inr sb"
    then show "importSPDX_entry K X cfg tdir xdir de n w
                = importSPDX_write K X cfg (Name de) tb (ident @ ''.txt'') ab (ident @ ''.json'') sb n
                    (w\<lparr>logged := logged w @ [Info_retrying ident],
                       vcalls := vcalls w @ [(ident, tb, xb, templateFile), (ident, tb, ab, templateFile)]\<rparr>)"
      unfolding eq by (simp add: importSPDX_checked_valid)
  }
next
  fix err
  assume ra: "os_ReadFile (fsys w) altTextFile = Inl err"
  have "importSPDX_entry K X cfg tdir xdir de n w
          = (Inl err, w\<lparr>logged := logged w @ [Info_retrying ident],
                         vcalls := vcalls w @ [(ident, tb, xb, templateFile)]\<rparr>)"
    using dep rt rx v1 ra
    unfolding ident_def templateFile_def altTextFile_def
    by (simp add: importSPDX_entry_def Let_def call_validate_def Logger_Infof_def)
  then show "fst (importSPDX_entry K X cfg tdir xdir de n w) = Inl err"
    and "vcalls (snd (importSPDX_entry K X cfg tdir xdir de n w))
             = vcalls w @ [(ident, tb, xb, templateFile)]"
    by simp_all
qed

theorem importSPDX_deprecated_retry_witness:
  "vcalls (snd (importSPDX_entry K0 X0 cfgSPDX ''/in/template'' ''/in/text'' deGPL 0 wLoop))
     = [(''deprecated_GPL'', ''gpl'', ''old'', ''/in/template/deprecated_GPL.template.txt''),
        (''deprecated_GPL'', ''gpl'', ''gpl'', ''/in/template/deprecated_GPL.template.txt'')]
   \<and> fst (importSPDX_entry K0 X0 cfgSPDX ''/in/template'' ''/in/text'' deGPL 0 wLoop) \<noteq> Inr (Suc 0)"
proof -
  have i: "TrimSuffix (Name deGPL) ''.template.txt'' = ''deprecated_GPL''"
    by code_simp
  have f: "Join [''/in/template'', Name deGPL] = ''/in/template/deprecated_GPL.template.txt''"
    by code_simp
  have h: "HasPrefix ''deprecated_GPL'' ''deprecated_''
      \<and> os_ReadFile (fsys wLoop) ''/in/template/deprecated_GPL.template.txt'' = Inr ''gpl''
      \<and> os_ReadFile (fsys wLoop) (Join [''/in/text'', ''deprecated_GPL'' @ ''.txt'']) = Inr ''old''
      \<and> validate X0 ''deprecated_GPL'' ''gpl'' ''old'' ''/in/template/deprecated_GPL.template.txt''
          = Inl (Foreign ''no match'')
      \<and> os_ReadFile (fsys wLoop)
          (Join [''/in/text'', TrimPrefix (''deprecated_GPL'' @ ''.txt'') ''deprecated_'']) = Inr ''gpl''
      \<and> \<not> isl (validate X0 ''deprecated_GPL'' ''gpl'' ''gpl''
                 ''/in/template/deprecated_GPL.template.txt'')
      \<and> vcalls wLoop = []"
    by code_simp
  note t = importSPDX_deprecated_retry [where de = deGPL and tdir = "''/in/template''"
      and xdir = "''/in/text''" and w = wLoop and tb = "''gpl''" and xb = "''old''"
      and X = X0 and ?e1.0 = "Foreign ''no match''" and K = K0 and cfg = cfgSPDX and n = 0,
      unfolded i f]
  from t h show ?thesis by simp
qed

text \<open>
  C9. When the license list version read from licenses.json differs from the one read
  from exceptions.json, importSPDX returns the version error and the world is as it was:
  nothing was written. And whenever importSPDX changes the world at all, both files were
  read and parsed and their versions are equal.
\<close>

theorem importSPDX_version_check:
  "(os_ReadFile (fsys w) (Join [srcDir K cfg, ''json'', ''licenses.json'']) = Inr lb
      \<and> ReadSPDXLicenseListJSON X lb = Inr ll
      \<and> os_ReadFile (fsys w) (Join [srcDir K cfg, ''json'', ''exceptions.json'']) = Inr eb
      \<and> ReadSPDXLicenseListJSON X eb = Inr el
      \<and> LicenseListVersion ll \<noteq> LicenseListVersion el
     \<longrightarrow> importSPDX K X cfg w
           = (Some (VersionMismatch (LicenseListVersion ll) (LicenseListVersion el)), w))
   \<and> (snd (importSPDX K X cfg w) \<noteq> w
     \<longrightarrow> (\<exists>lb ll eb el.
            os_ReadFile (fsys w) (Join [srcDir K cfg, ''json'', ''licenses.json'']) = Inr lb
            \<and> ReadSPDXLicenseListJSON X lb = Inr ll
            \<and> os_ReadFile (fsys w) (Join [srcDir K cfg, ''json'', ''exceptions.json'']) = Inr eb
            \<and> ReadSPDXLicenseListJSON X eb = Inr el
            \<and> LicenseListVersion ll = LicenseListVersion el))"
  by (auto simp add: importSPDX_def srcDir_def Let_def split: sum.splits if_splits)

theorem importSPDX_version_check_witness:
  "importSPDX K0 X0 cfgSPDX (worldOf fsVersions)
     = (Some (VersionMismatch ''3.20'' ''3.19''), worldOf fsVersions)
   \<and> (\<exists>lb ll eb el.
         os_ReadFile (fsys wIn) (Join [srcDir K0 cfgSPDX, ''json'', ''licenses.json'']) = Inr lb
         \<and> ReadSPDXLicenseListJSON X0 lb = Inr ll
         \<and> os_ReadFile (fsys wIn) (Join [srcDir K0 cfgSPDX, ''json'', ''exceptions.json'']) = Inr eb
         \<and> ReadSPDXLicenseListJSON X0 eb = Inr el
         \<and> LicenseListVersion ll = LicenseListVersion el)"
proof -
  have h: "os_ReadFile (fsys (worldOf fsVersions))
             (Join [srcDir K0 cfgSPDX, ''json'', ''licenses.json'']) = Inr ''3.20''
      \<and> ReadSPDXLicenseListJSON X0 ''3.20'' = Inr \<lparr>LicenseListVersion = ''3.20''\<rparr>
      \<and> os_ReadFile (fsys (worldOf fsVersions))
             (Join [srcDir K0 cfgSPDX, ''json'', ''exceptions.json'']) = Inr ''3.19''
      \<and> ReadSPDXLicenseListJSON X0 ''3.19'' = Inr \<lparr>LicenseListVersion = ''3.19''\<rparr>
      \<and> LicenseListVersion \<lparr>LicenseListVersion = ''3.20''\<rparr>
          \<noteq> LicenseListVersion \<lparr>LicenseListVersion = ''3.19''\<rparr>"
    by code_simp
  have g: "length (fsys (snd (importSPDX K0 X0 cfgSPDX wIn))) \<noteq> length (fsys wIn)"
    by code_simp
  then have g': "snd (importSPDX K0 X0 cfgSPDX wIn) \<noteq> wIn" by auto
  from importSPDX_version_check [where w = "worldOf fsVersions" and K = K0 and cfg = cfgSPDX
      and X = X0 and lb = "''3.20''" and ll = "\<lparr>LicenseListVersion = ''3.20''\<rparr>"
      and eb = "''3.19''" and el = "\<lparr>LicenseListVersion = ''3.19''\<rparr>"] h
  have 1: "importSPDX K0 X0 cfgSPDX (worldOf fsVersions)
     = (Some (VersionMismatch ''3.20'' ''3.19''), worldOf fsVersions)"
    by simp
  from importSPDX_version_check [where w = wIn and K = K0 and cfg = cfgSPDX and X = X0] g'
  have 2: "\<exists>lb ll eb el.
         os_ReadFile (fsys wIn) (Join [srcDir K0 cfgSPDX, ''json'', ''licenses.json'']) = Inr lb
         \<and> ReadSPDXLicenseListJSON X0 lb = Inr ll
         \<and> os_ReadFile (fsys wIn) (Join [srcDir K0 cfgSPDX, ''json'', ''exceptions.json'']) = Inr eb
         \<and> ReadSPDXLicenseListJSON X0 eb = Inr el
         \<and> LicenseListVersion ll = LicenseListVersion el"
    by blast
  from 1 2 show ?thesis by blast
qed

end
